theory Spec2Isabelle
  imports Main
begin

section \<open>Data model\<close>

text \<open>
  The persistence store is a relational database reached through an ORM. Each table is
  a list of rows (the order is the order in which the store returns them), ids are
  strings, and a \<open>Date\<close> is the number of milliseconds it denotes. A nullable column
  is an \<open>option\<close>. A row has the columns that the handlers below read or write; the
  columns they only pass through (images, prices, commissions) are left out.
\<close>

datatype WorkspaceRole = MEMBER | ADMIN | OWNER

text \<open>
  The platform-wide role of a user, \<open>USER | ADMIN | SUPER_ADMIN\<close> in the schema; its
  \<open>ADMIN\<close> is written \<open>PLATFORM_ADMIN\<close> here, apart from the workspace role.
\<close>

datatype UserRole = USER | PLATFORM_ADMIN | SUPER_ADMIN

record UserWorkspace =
  uw_userId :: string
  uw_workspaceId :: string
  uw_role :: WorkspaceRole

record Workspace =
  ws_id :: string
  ws_name :: string
  ws_slug :: string
  ws_description :: "string option"
  ws_createdAt :: nat
  ws_updatedAt :: nat
  ws_deletedAt :: "nat option"

record Post =
  post_id :: string
  post_title :: string
  post_content :: "string option"
  post_excerpt :: "string option"
  post_slug :: string
  post_videoUrl :: "string option"
  post_videoType :: "string option"
  post_thumbnail :: "string option"
  post_isPublished :: bool
  post_publishedAt :: "nat option"
  post_workspaceId :: string
  post_createdAt :: nat
  post_deletedAt :: "nat option"

record Product =
  product_id :: string
  product_name :: string
  product_workspaceId :: string
  product_categoryId :: "string option"
  product_activeAffiliateLinkId :: "string option"

record Category =
  category_id :: string
  category_name :: string
  category_workspaceId :: string

record AffiliateLink =
  link_id :: string
  link_name :: string
  link_affiliateUrl :: string
  link_productId :: string
  link_workspaceId :: string
  link_createdAt :: nat

record PostProduct =
  pp_postId :: string
  pp_productId :: string

record Store =
  userWorkspaces :: "UserWorkspace list"
  workspaces :: "Workspace list"
  posts :: "Post list"
  products :: "Product list"
  categories :: "Category list"
  affiliateLinks :: "AffiliateLink list"
  postProducts :: "PostProduct list"

text \<open>The session principal issued by the identity provider.\<close>

record SessionUser =
  user_id :: string
  user_role :: UserRole

text \<open>
  What a handler throws: \<open>Error msg\<close> is \<open>new Error(msg)\<close>, \<open>ZodError\<close> is the
  validation library's error class, \<open>PrismaError msg\<close> is an error raised by the ORM
  (an \<open>Error\<close> instance as well), \<open>SyntaxError msg\<close> is what \<open>request.json()\<close>
  throws on a body that is not JSON.
\<close>

datatype exn = Error string | ZodError string | PrismaError string | SyntaxError string

text \<open>
  The JSON response of a route handler. A field the handler does not write is
  \<open>None\<close>; \<open>success\<close> is \<open>True\<close> only where the handler writes \<open>success: true\<close>.
\<close>

record 'a Response =
  status :: nat
  success :: bool
  error :: "string option"
  message :: "string option"
  data :: "'a option"

definition json_error :: "string \<Rightarrow> nat \<Rightarrow> 'a Response" where
  "json_error e st =
     \<lparr>status = st, success = False, error = Some e, message = None, data = None\<rparr>"

definition json_ok :: "string option \<Rightarrow> 'a option \<Rightarrow> 'a Response" where
  "json_ok m d = \<lparr>status = 200, success = True, error = None, message = m, data = d\<rparr>"

text \<open>\<open>String.prototype.includes\<close>: the argument occurs as a contiguous substring.\<close>

fun starts_with :: "string \<Rightarrow> string \<Rightarrow> bool" where
  "starts_with s [] = True"
| "starts_with [] (c # cs) = False"
| "starts_with (d # ds) (c # cs) = (d = c \<and> starts_with ds cs)"

fun str_includes :: "string \<Rightarrow> string \<Rightarrow> bool" where
  "str_includes [] sub = (sub = [])"
| "str_includes (c # cs) sub = (starts_with (c # cs) sub \<or> str_includes cs sub)"

text \<open>Every thrown value here is an \<open>Error\<close> instance; this is its \<open>message\<close>.\<close>

fun exn_message :: "exn \<Rightarrow> string" where
  "exn_message (Error m) = m"
| "exn_message (ZodError m) = m"
| "exn_message (PrismaError m) = m"
| "exn_message (SyntaxError m) = m"

fun is_ZodError :: "exn \<Rightarrow> bool" where
  "is_ZodError (ZodError m) = True"
| "is_ZodError e = False"

text \<open>
  The outcome of \<open>Schema.parse(await request.json())\<close>: the body is not JSON, the
  schema rejects it, or the parsed data. Both libraries are outside the model.
\<close>

datatype 'a body = InvalidJson string | ValidationFailed string | Parsed 'a

fun parse_body :: "'a body \<Rightarrow> exn + 'a" where
  "parse_body (InvalidJson m) = Inl (SyntaxError m)"
| "parse_body (ValidationFailed m) = Inl (ZodError m)"
| "parse_body (Parsed d) = Inr d"

section \<open>Access control: \<open>api/workspaces/[id]/route.ts\<close>\<close>

text \<open>\<open>const roleHierarchy = { MEMBER: 0, ADMIN: 1, OWNER: 2 }\<close>\<close>

fun roleHierarchy :: "WorkspaceRole \<Rightarrow> nat" where
  "roleHierarchy MEMBER = 0"
| "roleHierarchy ADMIN = 1"
| "roleHierarchy OWNER = 2"

text \<open>\<open>prisma.userWorkspace.findFirst({ where: { workspaceId, userId } })\<close>\<close>

definition findMembership :: "Store \<Rightarrow> string \<Rightarrow> string \<Rightarrow> UserWorkspace option" where
  "findMembership db workspaceId userId =
     find (\<lambda>uw. uw_workspaceId uw = workspaceId \<and> uw_userId uw = userId) (userWorkspaces db)"

definition verifyWorkspaceAccessRole ::
  "Store \<Rightarrow> string \<Rightarrow> string \<Rightarrow> WorkspaceRole \<Rightarrow> exn + UserWorkspace" where
  "verifyWorkspaceAccessRole db workspaceId userId requiredRole =
     (case findMembership db workspaceId userId of
        None \<Rightarrow> Inl (Error ''Workspace not found or access denied'')
      | Some userWorkspace \<Rightarrow>
          if roleHierarchy (uw_role userWorkspace) < roleHierarchy requiredRole
          then Inl (Error ''Insufficient permissions'')
          else Inr userWorkspace)"

text \<open>The schema's invariant: at most one membership row per (user, workspace) pair.\<close>

definition membership_unique :: "Store \<Rightarrow> bool" where
  "membership_unique db =
     distinct (map (\<lambda>uw. (uw_userId uw, uw_workspaceId uw)) (userWorkspaces db))"

section \<open>JavaScript helpers\<close>

text \<open>
  Strings are modelled as lists of 8-bit characters (the Latin-1 code points). A truthy
  string is a defined, non-empty one: \<open>a || b\<close> is \<open>a\<close> when \<open>a\<close> is truthy and
  \<open>b\<close> otherwise.
\<close>

definition truthy :: "string option \<Rightarrow> bool" where
  "truthy s = (case s of None \<Rightarrow> False | Some v \<Rightarrow> v \<noteq> [])"

definition or_else :: "string option \<Rightarrow> string \<Rightarrow> string" where
  "or_else s d = (case s of None \<Rightarrow> d | Some v \<Rightarrow> if v = [] then d else v)"

definition is_space :: "char \<Rightarrow> bool" where
  "is_space c = (c \<in> set [CHR '' '', CHR 0x09, CHR 0x0A, CHR 0x0B, CHR 0x0C, CHR 0x0D, CHR 0xA0])"

definition is_upper :: "char \<Rightarrow> bool" where
  "is_upper c = (65 \<le> (of_char c :: nat) \<and> (of_char c :: nat) \<le> 90)"

definition is_lower :: "char \<Rightarrow> bool" where
  "is_lower c = (97 \<le> (of_char c :: nat) \<and> (of_char c :: nat) \<le> 122)"

definition is_digit :: "char \<Rightarrow> bool" where
  "is_digit c = (48 \<le> (of_char c :: nat) \<and> (of_char c :: nat) \<le> 57)"

definition to_lower :: "char \<Rightarrow> char" where
  "to_lower c = (if is_upper c then char_of (of_char c + (32 :: nat)) else c)"

definition toLowerCase :: "string \<Rightarrow> string" where
  "toLowerCase s = map to_lower s"

definition trim :: "string \<Rightarrow> string" where
  "trim s = rev (dropWhile is_space (rev (dropWhile is_space s)))"

text \<open>
  The numbers the list handler computes with are JavaScript numbers (doubles) whose
  value is an integer, an infinity or \<open>NaN\<close>; a finite one is written as the integer
  it denotes (negative zero is not told apart from zero).
\<close>

datatype number = NaN | PosInfinity | NegInfinity | Num int

text \<open>
  The double nearest to an integer (ties go to the even significand). An integer below
  \<open>2^53 = 9007199254740992\<close> in magnitude is a double; a larger one loses its low
  bits, \<open>excess_bits\<close> many, so that 53 bits remain; a magnitude that rounds to more
  than the largest double, \<open>(2^53 - 1) * 2^971\<close>, is an infinity.
\<close>

definition max_double :: int where
  "max_double =
     179769313486231570814527423731704356798070567525844996598917476803157260780028538760589558632766878171540458953514382464234321326889464182768467546703537516986049910576551282076245490090389328944075868508455133942304583236903222948165808559332123348274797826204144723168738177180919299881250404026184124858368"

function excess_bits :: "int \<Rightarrow> nat" where
  "excess_bits a = (if a < 9007199254740992 then 0 else Suc (excess_bits (a div 2)))"
  by pat_completeness auto
termination
  by (relation "measure nat") auto

declare excess_bits.simps [simp del]

fun pow2 :: "nat \<Rightarrow> int" where
  "pow2 0 = 1"
| "pow2 (Suc e) = 2 * pow2 e"

definition to_double :: "int \<Rightarrow> number" where
  "to_double n =
     (let a = \<bar>n\<bar>;
          e = excess_bits a;
          q = a div pow2 e;
          r = a mod pow2 e;
          up = (2 * r > pow2 e \<or> (2 * r = pow2 e \<and> odd q));
          m = (if up then q + 1 else q) * pow2 e
      in if m > max_double then (if n < 0 then NegInfinity else PosInfinity)
         else Num (if n < 0 then - m else m))"

text \<open>\<open>x - 1\<close> and \<open>x * y\<close> on these numbers: the exact result, rounded.\<close>

fun minus_one :: "number \<Rightarrow> number" where
  "minus_one (Num n) = to_double (n - 1)"
| "minus_one x = x"

fun times :: "number \<Rightarrow> number \<Rightarrow> number" where
  "times (Num a) (Num b) = to_double (a * b)"
| "times NaN y = NaN"
| "times x NaN = NaN"
| "times (Num a) PosInfinity = (if a = 0 then NaN else if a < 0 then NegInfinity else PosInfinity)"
| "times (Num a) NegInfinity = (if a = 0 then NaN else if a < 0 then PosInfinity else NegInfinity)"
| "times PosInfinity (Num b) = (if b = 0 then NaN else if b < 0 then NegInfinity else PosInfinity)"
| "times NegInfinity (Num b) = (if b = 0 then NaN else if b < 0 then PosInfinity else NegInfinity)"
| "times PosInfinity PosInfinity = PosInfinity"
| "times PosInfinity NegInfinity = NegInfinity"
| "times NegInfinity PosInfinity = NegInfinity"
| "times NegInfinity NegInfinity = PosInfinity"

text \<open>
  \<open>parseInt(s)\<close> with no radix: leading white space, an optional sign, an optional
  \<open>0x\<close> prefix selecting radix 16, then the longest run of digits, whose value is
  rounded to a double; without a digit the result is \<open>NaN\<close>.
\<close>

definition digit_value :: "char \<Rightarrow> int" where
  "digit_value c =
     (if is_digit c then of_char c - 48
      else if is_lower c then of_char c - 87
      else if is_upper c then of_char c - 55
      else 36)"

definition parseInt :: "string \<Rightarrow> number" where
  "parseInt s =
     (let s1 = dropWhile is_space s;
          neg = starts_with s1 ''-'';
          s2 = (if starts_with s1 ''-'' \<or> starts_with s1 ''+'' then drop 1 s1 else s1);
          hex = (starts_with s2 ''0x'' \<or> starts_with s2 ''0X'');
          radix = (if hex then 16 else 10);
          s3 = (if hex then drop 2 s2 else s2);
          ds = takeWhile (\<lambda>c. digit_value c < radix) s3;
          n = foldl (\<lambda>a c. a * radix + digit_value c) 0 ds
      in if ds = [] then NaN else to_double (if neg then - n else n))"

text \<open>Decimal rendering of a number inside a template literal.\<close>

fun digits_of :: "nat \<Rightarrow> nat \<Rightarrow> string" where
  "digits_of 0 n = []"
| "digits_of (Suc fuel) n =
     (if n < 10 then [char_of (48 + n)]
      else digits_of fuel (n div 10) @ [char_of (48 + n mod 10)])"

definition show_nat :: "nat \<Rightarrow> string" where
  "show_nat n = digits_of (Suc n) n"

text \<open>
  \<open>Math.random().toString(36).substring(2, 8)\<close>. The pseudo-random draw is an input
  of the model: \<open>rnd\<close> is the string \<open>Math.random().toString(36)\<close>, that is \<open>0\<close>
  for a draw of zero and otherwise \<open>0.\<close> followed by the base-36 digits of the draw
  (\<open>0.i\<close> for a draw of one half). \<open>substring(2, 8)\<close> keeps the characters at
  positions 2 to 7 that exist.
\<close>

definition substring :: "string \<Rightarrow> nat \<Rightarrow> nat \<Rightarrow> string" where
  "substring s a b = take (max a b - min a b) (drop (min a b) s)"

definition random_suffix :: "string \<Rightarrow> string" where
  "random_suffix rnd = substring rnd 2 8"

text \<open>\<open>`${slug}-${suffix}`\<close>\<close>

definition with_suffix :: "string \<Rightarrow> string \<Rightarrow> string" where
  "with_suffix slug rnd = slug @ ''-'' @ random_suffix rnd"

section \<open>Slug helpers: \<open>lib/video-utils\<close>\<close>

text \<open>
  The module \<open>lib/video-utils\<close>, whose code the repository carries in
  \<open>docs/QUICK_REFERENCE.md\<close>; \<open>generateSlug\<close> is
  \<^verbatim>\<open>title.toLowerCase().trim().replace(/[^\w\s-]/g, "")
       .replace(/[\s_-]+/g, "-").replace(/^-+|-+$/g, "")\<close> and \<open>isValidSlug\<close> is
  \<^verbatim>\<open>/^[a-z0-9]+(?:-[a-z0-9]+)*$/.test(slug) && slug.length >= 3 && slug.length <= 50\<close>.
\<close>

definition is_word_char :: "char \<Rightarrow> bool" where
  "is_word_char c = (is_lower c \<or> is_upper c \<or> is_digit c \<or> c = CHR ''_'')"

definition is_separator :: "char \<Rightarrow> bool" where
  "is_separator c = (is_space c \<or> c = CHR ''_'' \<or> c = CHR ''-'')"

text \<open>
  \<open>replace(/[\s_-]+/g, "-")\<close>: every maximal run of separators becomes one hyphen; the
  flag says that the previous character was a separator of the current run.
\<close>

fun collapse_run :: "bool \<Rightarrow> string \<Rightarrow> string" where
  "collapse_run in_run [] = []"
| "collapse_run in_run (c # cs) =
     (if is_separator c
      then (if in_run then collapse_run True cs else CHR ''-'' # collapse_run True cs)
      else c # collapse_run False cs)"

definition collapse_separators :: "string \<Rightarrow> string" where
  "collapse_separators s = collapse_run False s"

definition strip_hyphens :: "string \<Rightarrow> string" where
  "strip_hyphens s =
     rev (dropWhile (\<lambda>c. c = CHR ''-'') (rev (dropWhile (\<lambda>c. c = CHR ''-'') s)))"

definition generateSlug :: "string \<Rightarrow> string" where
  "generateSlug title =
     strip_hyphens (collapse_separators
       (filter (\<lambda>c. is_word_char c \<or> is_space c \<or> c = CHR ''-'') (trim (toLowerCase title))))"

definition is_slug_char :: "char \<Rightarrow> bool" where
  "is_slug_char c = (is_lower c \<or> is_digit c)"

text \<open>
  \<open>^[a-z0-9]+(?:-[a-z0-9]+)*$\<close>: \<open>slug_tail\<close> reads the rest of the string after at least one
  slug character of the current segment.
\<close>

fun slug_tail :: "string \<Rightarrow> bool" where
  "slug_tail [] = True"
| "slug_tail [c] = is_slug_char c"
| "slug_tail (c # d # cs) =
     (if c = CHR ''-'' then is_slug_char d \<and> slug_tail cs
      else is_slug_char c \<and> slug_tail (d # cs))"

definition slug_regex :: "string \<Rightarrow> bool" where
  "slug_regex s = (case s of [] \<Rightarrow> False | c # cs \<Rightarrow> is_slug_char c \<and> slug_tail cs)"

definition isValidSlug :: "string \<Rightarrow> bool" where
  "isValidSlug slug = (slug_regex slug \<and> length slug \<ge> 3 \<and> length slug \<le> 50)"

section \<open>Store operations of the ORM\<close>

text \<open>\<open>orderBy: { createdAt: "desc" }\<close>; rows of equal date keep the order of the table.\<close>

definition order_desc :: "('a \<Rightarrow> nat) \<Rightarrow> 'a list \<Rightarrow> 'a list" where
  "order_desc key xs = sort_key (\<lambda>x. - int (key x)) xs"

text \<open>
  \<open>skip\<close> and \<open>take\<close> of \<open>findMany\<close>. The ORM takes integers that fit 64 signed
  bits (from \<open>-2^63\<close> to \<open>2^63 - 1\<close>, and \<open>2^63 = 9223372036854775808\<close>) and
  rejects anything else, and it rejects a negative \<open>skip\<close>; a negative \<open>take\<close>
  counts from the end of the ordered rows.
\<close>

definition int64 :: "number \<Rightarrow> int option" where
  "int64 x =
     (case x of
        Num n \<Rightarrow>
          if - 9223372036854775808 \<le> n \<and> n < 9223372036854775808 then Some n else None
      | _ \<Rightarrow> None)"

text \<open>The first \<open>n\<close> rows of a list, and the list without them.\<close>

fun take_rows :: "int \<Rightarrow> 'a list \<Rightarrow> 'a list" where
  "take_rows n [] = []"
| "take_rows n (x # xs) = (if n \<le> 0 then [] else x # take_rows (n - 1) xs)"

fun drop_rows :: "int \<Rightarrow> 'a list \<Rightarrow> 'a list" where
  "drop_rows n [] = []"
| "drop_rows n (x # xs) = (if n \<le> 0 then x # xs else drop_rows (n - 1) xs)"

definition paginate :: "number \<Rightarrow> number \<Rightarrow> 'a list \<Rightarrow> exn + 'a list" where
  "paginate skip tk xs =
     (case (int64 skip, int64 tk) of
        (Some s, Some t) \<Rightarrow>
          if s < 0 then Inl (PrismaError ''Invalid value for skip argument'')
          else if 0 \<le> t then Inr (take_rows t (drop_rows s xs))
          else Inr (rev (take_rows (- t) (drop_rows s (rev xs))))
      | _ \<Rightarrow> Inl (PrismaError ''Invalid value for skip or take argument''))"

text \<open>
  \<open>prisma.$transaction(async (tx) => ...)\<close>: the writes of the body are kept when it
  returns and discarded when it throws; the exception is thrown on to the caller.
\<close>

definition transaction :: "(Store \<Rightarrow> exn + ('a \<times> Store)) \<Rightarrow> Store \<Rightarrow> (exn + 'a) \<times> Store" where
  "transaction body db =
     (case body db of Inl e \<Rightarrow> (Inl e, db) | Inr (r, db') \<Rightarrow> (Inr r, db'))"

text \<open>
  The unique indexes of the schema, from its migration SQL (in the sources under
  \<open>scripts/create-test-user.ts\<close>): \<open>workspaces_slug_key\<close> on
  the slug of a workspace, \<open>posts_workspaceId_slug_key\<close> on (workspaceId, slug) of a
  post, whether soft-deleted or not, and \<open>post_products_postId_productId_key\<close> on
  (postId, productId). A write that breaks a unique index, or a primary key, throws.
\<close>

definition post_create :: "Store \<Rightarrow> Post \<Rightarrow> exn + Store" where
  "post_create db p =
     (if list_ex (\<lambda>q. post_id q = post_id p) (posts db)
      then Inl (PrismaError ''Unique constraint failed on the fields: (`id`)'')
      else if list_ex (\<lambda>q. post_workspaceId q = post_workspaceId p \<and> post_slug q = post_slug p)
                (posts db)
      then Inl (PrismaError ''Unique constraint failed on the fields: (`workspaceId`,`slug`)'')
      else Inr (db\<lparr>posts := posts db @ [p]\<rparr>))"

text \<open>
  \<open>tx.post.update({ where: { id: postId }, data })\<close>; the unique constraint is
  checked when the update changes a column of it.
\<close>

definition post_update :: "Store \<Rightarrow> string \<Rightarrow> (Post \<Rightarrow> Post) \<Rightarrow> exn + Store" where
  "post_update db postId change =
     (case find (\<lambda>q. post_id q = postId) (posts db) of
        None \<Rightarrow> Inl (PrismaError ''Record to update not found'')
      | Some p \<Rightarrow>
          if (post_slug (change p) \<noteq> post_slug p \<or> post_workspaceId (change p) \<noteq> post_workspaceId p)
             \<and> list_ex (\<lambda>q. post_id q \<noteq> postId \<and> post_workspaceId q = post_workspaceId (change p)
                          \<and> post_slug q = post_slug (change p)) (posts db)
          then Inl (PrismaError ''Unique constraint failed on the fields: (`workspaceId`,`slug`)'')
          else Inr (db\<lparr>posts := map (\<lambda>q. if post_id q = postId then change q else q) (posts db)\<rparr>))"

text \<open>\<open>tx.postProduct.deleteMany({ where: { postId } })\<close>\<close>

definition postProduct_deleteMany :: "Store \<Rightarrow> string \<Rightarrow> Store" where
  "postProduct_deleteMany db postId =
     db\<lparr>postProducts := filter (\<lambda>pp. pp_postId pp \<noteq> postId) (postProducts db)\<rparr>"

text \<open>\<open>tx.postProduct.createMany({ data: productIds.map((productId) => ({ postId, productId })) })\<close>\<close>

definition postProduct_createMany :: "Store \<Rightarrow> string \<Rightarrow> string list \<Rightarrow> exn + Store" where
  "postProduct_createMany db postId productIds =
     (let rows = map (\<lambda>productId. \<lparr>pp_postId = postId, pp_productId = productId\<rparr>) productIds
      in if distinct rows \<and> list_all (\<lambda>row. row \<notin> set (postProducts db)) rows
         then Inr (db\<lparr>postProducts := postProducts db @ rows\<rparr>)
         else Inl (PrismaError ''Unique constraint failed on the fields: (`postId`,`productId`)''))"

text \<open>\<open>tx.product.findMany({ where: { id: { in: productIds }, workspaceId } })\<close>\<close>

definition findProductsIn :: "Store \<Rightarrow> string list \<Rightarrow> string \<Rightarrow> Product list" where
  "findProductsIn db productIds workspaceId =
     filter (\<lambda>p. product_id p \<in> set productIds \<and> product_workspaceId p = workspaceId) (products db)"

text \<open>
  The \<open>include\<close> of the post queries: the post's association rows, each with its
  product (the \<open>select\<close> projection of the product's columns is not applied).
\<close>

record PostWithProducts =
  pwp_post :: Post
  pwp_products :: "(PostProduct \<times> Product option) list"

definition include_products :: "Store \<Rightarrow> Post \<Rightarrow> PostWithProducts" where
  "include_products db p =
     \<lparr>pwp_post = p,
      pwp_products =
        map (\<lambda>pp. (pp, find (\<lambda>pr. product_id pr = pp_productId pp) (products db)))
          (filter (\<lambda>pp. pp_postId pp = post_id p) (postProducts db))\<rparr>"

text \<open>The primary keys of the tables the properties below depend on.\<close>

definition post_ids_unique :: "Store \<Rightarrow> bool" where
  "post_ids_unique db = distinct (map post_id (posts db))"

definition product_ids_unique :: "Store \<Rightarrow> bool" where
  "product_ids_unique db = distinct (map product_id (products db))"

section \<open>Posts of a workspace: \<open>api/workspaces/[id]/posts/route.ts\<close>\<close>

definition verifyWorkspaceAccess :: "Store \<Rightarrow> string \<Rightarrow> string \<Rightarrow> exn + UserWorkspace" where
  "verifyWorkspaceAccess db workspaceId userId =
     (case findMembership db workspaceId userId of
        None \<Rightarrow> Inl (Error ''Access denied to workspace'')
      | Some userWorkspace \<Rightarrow> Inr userWorkspace)"

text \<open>
  The \<open>catch\<close> blocks of the handlers: a message that includes \<open>Access denied\<close>
  (the comparison is case-sensitive) is a 403, anything else a 500; the handlers that
  parse a body answer a validation error with 400 first (the \<open>details\<close> of that
  answer are left out).
\<close>

definition catch_access :: "exn \<Rightarrow> 'a Response" where
  "catch_access e =
     (if str_includes (exn_message e) ''Access denied'' then json_error (exn_message e) 403
      else json_error ''Internal server error'' 500)"

definition catch_validation :: "exn \<Rightarrow> 'a Response" where
  "catch_validation e =
     (if is_ZodError e then json_error ''Validation failed'' 400 else catch_access e)"

text \<open>
  \<open>contains\<close> with \<open>mode: "insensitive"\<close>, on a nullable column: the ORM sends
  \<open>column ILIKE '%search%'\<close> with the search text as it is, so that in the text a
  \<open>%\<close> stands for any run of characters, a \<open>_\<close> for any one character, and a
  backslash takes the character after it literally. Letters are compared without
  regard to case (the ASCII letters, in this model).
\<close>

fun like_match :: "string \<Rightarrow> string \<Rightarrow> bool" where
  "like_match [] t = (t = [])"
| "like_match (c # p) [] = (c = CHR ''%'' \<and> like_match p [])"
| "like_match (c # p) (x # t) =
     (if c = CHR ''%'' then like_match p (x # t) \<or> like_match (c # p) t
      else if c = CHR ''_'' then like_match p t
      else if c = CHR 0x5C then (case p of [] \<Rightarrow> False | d # p' \<Rightarrow> x = d \<and> like_match p' t)
      else x = c \<and> like_match p t)"

definition contains_insensitive :: "string option \<Rightarrow> string \<Rightarrow> bool" where
  "contains_insensitive col search =
     (case col of
        None \<Rightarrow> False
      | Some v \<Rightarrow> like_match (''%'' @ toLowerCase search @ ''%'') (toLowerCase v))"

text \<open>The \<open>where\<close> clause built by the list handler.\<close>

definition posts_where :: "string \<Rightarrow> string \<Rightarrow> string option \<Rightarrow> Post \<Rightarrow> bool" where
  "posts_where workspaceId search published p =
     (post_workspaceId p = workspaceId \<and> post_deletedAt p = None \<and>
      (if search \<noteq> [] then
         contains_insensitive (Some (post_title p)) search \<or>
         contains_insensitive (post_content p) search \<or>
         contains_insensitive (post_excerpt p) search
       else True) \<and>
      (case published of None \<Rightarrow> True | Some v \<Rightarrow> post_isPublished p = (v = ''true'')))"

text \<open>
  The data of the list: the posts of the page, the \<open>page\<close> and \<open>limit\<close> of the
  request and the number of matching posts (the \<open>pages\<close> field, the rounded-up
  floating-point quotient of the last two, is left out).
\<close>

record PostsPage =
  page_posts :: "PostWithProducts list"
  page_page :: number
  page_limit :: number
  page_total :: nat

text \<open>
  \<open>GET /api/workspaces/[id]/posts\<close>. \<open>query\<close> is the list of the URL's search
  parameters; \<open>searchParams.get\<close> reads the first value of a name.
\<close>

definition GET_posts ::
  "Store \<Rightarrow> SessionUser option \<Rightarrow> string \<Rightarrow> (string \<times> string) list \<Rightarrow> PostsPage Response" where
  "GET_posts db session workspaceId query =
     (case session of
        None \<Rightarrow> json_error ''Unauthorized'' 401
      | Some user \<Rightarrow>
         (case verifyWorkspaceAccess db workspaceId (user_id user) of
            Inl e \<Rightarrow> catch_access e
          | Inr _ \<Rightarrow>
             (let page = parseInt (or_else (map_of query ''page'') ''1'');
                  limit = parseInt (or_else (map_of query ''limit'') ''20'');
                  search = or_else (map_of query ''search'') [];
                  published = map_of query ''published'';
                  skip = times (minus_one page) limit;
                  matching = filter (posts_where workspaceId search published) (posts db)
              in case paginate skip limit (order_desc post_createdAt matching) of
                   Inl e \<Rightarrow> catch_access e
                 | Inr found \<Rightarrow>
                     json_ok None
                       (Some \<lparr>page_posts = map (include_products db) found,
                              page_page = page, page_limit = limit,
                              page_total = length matching\<rparr>))))"

record CreatePost =
  cp_title :: string
  cp_content :: "string option"
  cp_excerpt :: "string option"
  cp_slug :: "string option"
  cp_videoUrl :: "string option"
  cp_videoType :: "string option"
  cp_thumbnail :: "string option"
  cp_isPublished :: bool
  cp_publishedAt :: "nat option"
  cp_productIds :: "string list option"

text \<open>\<open>prisma.post.findFirst({ where: { workspaceId, slug, deletedAt: null } })\<close>\<close>

definition findPostBySlug :: "Store \<Rightarrow> string \<Rightarrow> string \<Rightarrow> Post option" where
  "findPostBySlug db workspaceId slug =
     find (\<lambda>p. post_workspaceId p = workspaceId \<and> post_slug p = slug \<and> post_deletedAt p = None)
       (posts db)"

text \<open>
  The body of the creating transaction. \<open>newId\<close> is the id the store generates for
  the row and \<open>now\<close> the value of \<open>new Date()\<close>.
\<close>

definition create_post_tx ::
  "string \<Rightarrow> CreatePost \<Rightarrow> string \<Rightarrow> string \<Rightarrow> nat \<Rightarrow> Store \<Rightarrow> exn + (PostWithProducts option \<times> Store)" where
  "create_post_tx workspaceId postData slug newId now db =
     (let post = \<lparr>post_id = newId, post_title = cp_title postData,
                  post_content = cp_content postData, post_excerpt = cp_excerpt postData,
                  post_slug = slug, post_videoUrl = cp_videoUrl postData,
                  post_videoType = cp_videoType postData, post_thumbnail = cp_thumbnail postData,
                  post_isPublished = cp_isPublished postData,
                  post_publishedAt = (if cp_isPublished postData then Some now else None),
                  post_workspaceId = workspaceId, post_createdAt = now, post_deletedAt = None\<rparr>
      in case post_create db post of
           Inl e \<Rightarrow> Inl e
         | Inr db1 \<Rightarrow>
            (case (case cp_productIds postData of
                     None \<Rightarrow> Inr db1
                   | Some productIds \<Rightarrow>
                       if length productIds > 0 then
                         (if length (findProductsIn db1 productIds workspaceId) \<noteq> length productIds
                          then Inl (Error ''Some products not found or access denied'')
                          else postProduct_createMany db1 newId productIds)
                       else Inr db1) of
               Inl e \<Rightarrow> Inl e
             | Inr db2 \<Rightarrow>
                 Inr (map_option (include_products db2) (find (\<lambda>p. post_id p = newId) (posts db2)),
                      db2)))"

text \<open>
  \<open>POST /api/workspaces/[id]/posts\<close>. \<open>rnd\<close> is the string
  \<open>Math.random().toString(36)\<close> of the draw made when the slug is taken.
\<close>

definition POST_posts ::
  "Store \<Rightarrow> SessionUser option \<Rightarrow> string \<Rightarrow> CreatePost body \<Rightarrow> string \<Rightarrow> string \<Rightarrow> nat
     \<Rightarrow> PostWithProducts Response \<times> Store" where
  "POST_posts db session workspaceId body rnd newId now =
     (case session of
        None \<Rightarrow> (json_error ''Unauthorized'' 401, db)
      | Some user \<Rightarrow>
         (case verifyWorkspaceAccess db workspaceId (user_id user) of
            Inl e \<Rightarrow> (catch_validation e, db)
          | Inr _ \<Rightarrow>
             (case parse_body body of
                Inl e \<Rightarrow> (catch_validation e, db)
              | Inr postData \<Rightarrow>
                 (let slug0 = or_else (cp_slug postData) (generateSlug (cp_title postData));
                      slug = (case findPostBySlug db workspaceId slug0 of
                                None \<Rightarrow> slug0
                              | Some existingPost \<Rightarrow> with_suffix slug0 rnd)
                  in case transaction (create_post_tx workspaceId postData slug newId now) db of
                       (Inl e, db') \<Rightarrow> (catch_validation e, db')
                     | (Inr result, db') \<Rightarrow>
                         (json_ok (Some ''Post created successfully'') result, db')))))"

section \<open>A single post: \<open>api/workspaces/[id]/posts/[postId]/route.ts\<close>\<close>

text \<open>\<open>prisma.post.findFirst({ where: { id: postId, workspaceId, deletedAt: null } })\<close>\<close>

definition findPost :: "Store \<Rightarrow> string \<Rightarrow> string \<Rightarrow> Post option" where
  "findPost db workspaceId postId =
     find (\<lambda>p. post_id p = postId \<and> post_workspaceId p = workspaceId \<and> post_deletedAt p = None)
       (posts db)"

definition verifyPostAccess ::
  "Store \<Rightarrow> string \<Rightarrow> string \<Rightarrow> string \<Rightarrow> exn + (UserWorkspace \<times> Post)" where
  "verifyPostAccess db workspaceId postId userId =
     (case findMembership db workspaceId userId of
        None \<Rightarrow> Inl (Error ''Access denied to workspace'')
      | Some userWorkspace \<Rightarrow>
         (case findPost db workspaceId postId of
            None \<Rightarrow> Inl (Error ''Post not found or access denied'')
          | Some post \<Rightarrow> Inr (userWorkspace, post)))"

text \<open>
  \<open>GET /api/workspaces/[id]/posts/[postId]\<close>; the data is the post with its products
  and its workspace.
\<close>

definition GET_post ::
  "Store \<Rightarrow> SessionUser option \<Rightarrow> string \<Rightarrow> string
     \<Rightarrow> (PostWithProducts \<times> Workspace option) Response" where
  "GET_post db session workspaceId postId =
     (case session of
        None \<Rightarrow> json_error ''Unauthorized'' 401
      | Some user \<Rightarrow>
         (case verifyPostAccess db workspaceId postId (user_id user) of
            Inl e \<Rightarrow> catch_access e
          | Inr _ \<Rightarrow>
             (case findPost db workspaceId postId of
                None \<Rightarrow> json_error ''Post not found'' 404
              | Some post \<Rightarrow>
                  json_ok None
                    (Some (include_products db post,
                           find (\<lambda>w. ws_id w = post_workspaceId post) (workspaces db))))))"

record UpdatePost =
  up_title :: "string option"
  up_content :: "string option"
  up_excerpt :: "string option"
  up_slug :: "string option"
  up_videoUrl :: "string option"
  up_videoType :: "string option"
  up_thumbnail :: "string option"
  up_isPublished :: "bool option"
  up_publishedAt :: "nat option"
  up_productIds :: "string list option"

text \<open>
  \<open>if (postData.title && !postData.slug) postData.slug = generateSlug(postData.title)\<close>
\<close>

definition reslug :: "UpdatePost \<Rightarrow> UpdatePost" where
  "reslug postData =
     (if truthy (up_title postData) \<and> \<not> truthy (up_slug postData)
      then postData\<lparr>up_slug := Some (generateSlug (or_else (up_title postData) []))\<rparr>
      else postData)"

text \<open>
  The uniqueness check of an update: another live post of the workspace with the slug
  makes the handler append the random suffix.
\<close>

definition findOtherPostBySlug :: "Store \<Rightarrow> string \<Rightarrow> string \<Rightarrow> string \<Rightarrow> Post option" where
  "findOtherPostBySlug db workspaceId slug postId =
     find (\<lambda>p. post_workspaceId p = workspaceId \<and> post_slug p = slug \<and> post_deletedAt p = None
               \<and> post_id p \<noteq> postId) (posts db)"

definition unique_slug :: "Store \<Rightarrow> string \<Rightarrow> string \<Rightarrow> string \<Rightarrow> UpdatePost \<Rightarrow> UpdatePost" where
  "unique_slug db workspaceId postId rnd postData =
     (if truthy (up_slug postData) then
        (case findOtherPostBySlug db workspaceId (or_else (up_slug postData) []) postId of
           None \<Rightarrow> postData
         | Some existingPost \<Rightarrow>
             postData\<lparr>up_slug := Some (with_suffix (or_else (up_slug postData) []) rnd)\<rparr>)
      else postData)"

text \<open>The handling of the published status; a date is truthy when it is present.\<close>

definition publish_status :: "nat \<Rightarrow> UpdatePost \<Rightarrow> UpdatePost" where
  "publish_status now postData =
     (case up_isPublished postData of
        None \<Rightarrow> postData
      | Some isPublished \<Rightarrow>
          if isPublished \<and> up_publishedAt postData = None
          then postData\<lparr>up_publishedAt := Some now\<rparr>
          else if \<not> isPublished then postData\<lparr>up_publishedAt := None\<rparr>
          else postData)"

text \<open>
  The \<open>data\<close> of the update: a field that is \<open>undefined\<close> leaves the column as it is.
\<close>

definition set_opt :: "'a option \<Rightarrow> 'a option \<Rightarrow> 'a option" where
  "set_opt new old = (case new of None \<Rightarrow> old | Some v \<Rightarrow> Some v)"

definition set_val :: "'a option \<Rightarrow> 'a \<Rightarrow> 'a" where
  "set_val new old = (case new of None \<Rightarrow> old | Some v \<Rightarrow> v)"

definition apply_update :: "UpdatePost \<Rightarrow> Post \<Rightarrow> Post" where
  "apply_update postData p =
     p\<lparr>post_title := set_val (up_title postData) (post_title p),
       post_content := set_opt (up_content postData) (post_content p),
       post_excerpt := set_opt (up_excerpt postData) (post_excerpt p),
       post_slug := set_val (up_slug postData) (post_slug p),
       post_videoUrl := set_opt (up_videoUrl postData) (post_videoUrl p),
       post_videoType := set_opt (up_videoType postData) (post_videoType p),
       post_thumbnail := set_opt (up_thumbnail postData) (post_thumbnail p),
       post_isPublished := set_val (up_isPublished postData) (post_isPublished p),
       post_publishedAt := set_opt (up_publishedAt postData) (post_publishedAt p)\<rparr>"

text \<open>
  The replacement of the post's products inside the updating transaction: all rows of
  the post are deleted, the requested products are counted in the workspace, and the
  new rows are inserted.
\<close>

definition replace_products :: "Store \<Rightarrow> string \<Rightarrow> string \<Rightarrow> string list option \<Rightarrow> exn + Store" where
  "replace_products db workspaceId postId ids =
     (case ids of
        None \<Rightarrow> Inr db
      | Some productIds \<Rightarrow>
         (let db1 = postProduct_deleteMany db postId
          in if length productIds > 0 then
               (if length (findProductsIn db1 productIds workspaceId) \<noteq> length productIds
                then Inl (Error ''Some products not found or access denied'')
                else postProduct_createMany db1 postId productIds)
             else Inr db1))"

definition update_post_tx ::
  "string \<Rightarrow> string \<Rightarrow> UpdatePost \<Rightarrow> Store
     \<Rightarrow> exn + ((PostWithProducts \<times> Workspace option) option \<times> Store)" where
  "update_post_tx workspaceId postId postData db =
     (case post_update db postId (apply_update postData) of
        Inl e \<Rightarrow> Inl e
      | Inr db1 \<Rightarrow>
         (case replace_products db1 workspaceId postId (up_productIds postData) of
            Inl e \<Rightarrow> Inl e
          | Inr db2 \<Rightarrow>
              Inr (map_option
                     (\<lambda>p. (include_products db2 p,
                           find (\<lambda>w. ws_id w = post_workspaceId p) (workspaces db2)))
                     (find (\<lambda>p. post_id p = postId) (posts db2)),
                   db2)))"

text \<open>\<open>PUT /api/workspaces/[id]/posts/[postId]\<close>\<close>

definition PUT_post ::
  "Store \<Rightarrow> SessionUser option \<Rightarrow> string \<Rightarrow> string \<Rightarrow> UpdatePost body \<Rightarrow> string \<Rightarrow> nat
     \<Rightarrow> (PostWithProducts \<times> Workspace option) Response \<times> Store" where
  "PUT_post db session workspaceId postId body rnd now =
     (case session of
        None \<Rightarrow> (json_error ''Unauthorized'' 401, db)
      | Some user \<Rightarrow>
         (case verifyPostAccess db workspaceId postId (user_id user) of
            Inl e \<Rightarrow> (catch_validation e, db)
          | Inr _ \<Rightarrow>
             (case parse_body body of
                Inl e \<Rightarrow> (catch_validation e, db)
              | Inr parsed \<Rightarrow>
                 (let postData = publish_status now (unique_slug db workspaceId postId rnd (reslug parsed))
                  in case transaction (update_post_tx workspaceId postId postData) db of
                       (Inl e, db') \<Rightarrow> (catch_validation e, db')
                     | (Inr result, db') \<Rightarrow>
                         (json_ok (Some ''Post updated successfully'') result, db')))))"

text \<open>\<open>DELETE /api/workspaces/[id]/posts/[postId]\<close>: the soft delete.\<close>

definition DELETE_post ::
  "Store \<Rightarrow> SessionUser option \<Rightarrow> string \<Rightarrow> string \<Rightarrow> nat \<Rightarrow> unit Response \<times> Store" where
  "DELETE_post db session workspaceId postId now =
     (case session of
        None \<Rightarrow> (json_error ''Unauthorized'' 401, db)
      | Some user \<Rightarrow>
         (case verifyPostAccess db workspaceId postId (user_id user) of
            Inl e \<Rightarrow> (catch_access e, db)
          | Inr _ \<Rightarrow>
             (case post_update db postId (\<lambda>p. p\<lparr>post_deletedAt := Some now\<rparr>) of
                Inl e \<Rightarrow> (catch_access e, db)
              | Inr db' \<Rightarrow> (json_ok (Some ''Post deleted successfully'') None, db'))))"

section \<open>Categories: \<open>api/workspaces/[id]/categories/[categoryId]/route.ts\<close>\<close>

definition verifyCategoryAccess ::
  "Store \<Rightarrow> string \<Rightarrow> string \<Rightarrow> string \<Rightarrow> exn + (UserWorkspace \<times> Category)" where
  "verifyCategoryAccess db workspaceId categoryId userId =
     (case findMembership db workspaceId userId of
        None \<Rightarrow> Inl (Error ''Access denied to workspace'')
      | Some userWorkspace \<Rightarrow>
         (case find (\<lambda>c. category_id c = categoryId \<and> category_workspaceId c = workspaceId)
                 (categories db) of
            None \<Rightarrow> Inl (Error ''Category not found or access denied'')
          | Some category \<Rightarrow> Inr (userWorkspace, category)))"

text \<open>\<open>prisma.product.count({ where: { categoryId } })\<close>\<close>

definition productCount :: "Store \<Rightarrow> string \<Rightarrow> nat" where
  "productCount db categoryId =
     length (filter (\<lambda>p. product_categoryId p = Some categoryId) (products db))"

text \<open>\<open>prisma.category.delete({ where: { id: categoryId } })\<close>\<close>

definition category_delete :: "Store \<Rightarrow> string \<Rightarrow> exn + Store" where
  "category_delete db categoryId =
     (if list_ex (\<lambda>c. category_id c = categoryId) (categories db)
      then Inr (db\<lparr>categories := filter (\<lambda>c. category_id c \<noteq> categoryId) (categories db)\<rparr>)
      else Inl (PrismaError ''Record to delete does not exist''))"

definition cannot_delete_category :: "nat \<Rightarrow> unit Response" where
  "cannot_delete_category n =
     \<lparr>status = 400, success = False, error = Some ''Cannot delete category'',
      message = Some (''Category has '' @ show_nat n
                       @ '' product(s). Remove products from category first.''),
      data = None\<rparr>"

text \<open>\<open>DELETE /api/workspaces/[id]/categories/[categoryId]\<close>\<close>

definition DELETE_category ::
  "Store \<Rightarrow> SessionUser option \<Rightarrow> string \<Rightarrow> string \<Rightarrow> unit Response \<times> Store" where
  "DELETE_category db session workspaceId categoryId =
     (case session of
        None \<Rightarrow> (json_error ''Unauthorized'' 401, db)
      | Some user \<Rightarrow>
         (case verifyCategoryAccess db workspaceId categoryId (user_id user) of
            Inl e \<Rightarrow> (catch_access e, db)
          | Inr _ \<Rightarrow>
             if productCount db categoryId > 0
             then (cannot_delete_category (productCount db categoryId), db)
             else (case category_delete db categoryId of
                     Inl e \<Rightarrow> (catch_access e, db)
                   | Inr db' \<Rightarrow> (json_ok (Some ''Category deleted successfully'') None, db'))))"

section \<open>Affiliate links: \<open>api/workspaces/[id]/affiliate-links/route.ts\<close>\<close>

text \<open>
  An element of the list: the link, its product and the \<open>isActive\<close> flag computed from
  the product's active link. The placeholder click and conversion counters, drawn at
  random by the handler, are left out.
\<close>

record LinkWithStats =
  lws_link :: AffiliateLink
  lws_product :: Product
  lws_isActive :: bool

text \<open>
  \<open>link.product.activeAffiliateLinkId === link.id\<close>; reading the field of a missing
  product throws a \<open>TypeError\<close>.
\<close>

fun links_with_stats :: "Store \<Rightarrow> AffiliateLink list \<Rightarrow> exn + LinkWithStats list" where
  "links_with_stats db [] = Inr []"
| "links_with_stats db (l # ls) =
     (case find (\<lambda>p. product_id p = link_productId l) (products db) of
        None \<Rightarrow> Inl (Error ''Cannot read properties of null'')
      | Some product \<Rightarrow>
         (case links_with_stats db ls of
            Inl e \<Rightarrow> Inl e
          | Inr rest \<Rightarrow>
              Inr (\<lparr>lws_link = l, lws_product = product,
                    lws_isActive = (product_activeAffiliateLinkId product = Some (link_id l))\<rparr>
                   # rest)))"

text \<open>\<open>GET /api/workspaces/[id]/affiliate-links\<close>\<close>

definition GET_affiliate_links ::
  "Store \<Rightarrow> SessionUser option \<Rightarrow> string \<Rightarrow> LinkWithStats list Response" where
  "GET_affiliate_links db session workspaceId =
     (case session of
        None \<Rightarrow> json_error ''Unauthorized'' 401
      | Some user \<Rightarrow>
         (case verifyWorkspaceAccess db workspaceId (user_id user) of
            Inl e \<Rightarrow> catch_access e
          | Inr _ \<Rightarrow>
             (case links_with_stats db
                     (order_desc link_createdAt
                        (filter (\<lambda>l. link_workspaceId l = workspaceId) (affiliateLinks db))) of
                Inl e \<Rightarrow> catch_access e
              | Inr linksWithStats \<Rightarrow> json_ok None (Some linksWithStats))))"

section \<open>A single affiliate link: \<open>api/workspaces/[id]/affiliate-links/[linkId]/route.ts\<close>\<close>







section \<open>A single product: \<open>api/workspaces/[id]/products/[productId]/route.ts\<close>\<close>

definition findProduct :: "Store \<Rightarrow> string \<Rightarrow> string \<Rightarrow> Product option" where
  "findProduct db workspaceId productId =
     find (\<lambda>p. product_id p = productId \<and> product_workspaceId p = workspaceId) (products db)"

definition verifyProductAccess ::
  "Store \<Rightarrow> string \<Rightarrow> string \<Rightarrow> string \<Rightarrow> exn + (UserWorkspace \<times> Product)" where
  "verifyProductAccess db workspaceId productId userId =
     (case findMembership db workspaceId userId of
        None \<Rightarrow> Inl (Error ''Access denied to workspace'')
      | Some userWorkspace \<Rightarrow>
         (case findProduct db workspaceId productId of
            None \<Rightarrow> Inl (Error ''Product not found or access denied'')
          | Some product \<Rightarrow> Inr (userWorkspace, product)))"

text \<open>
  \<open>include: { posts: { include: { post: { select: ... } } } }\<close>: the rows of the join
  table for the product, each with its post. The relation has no filter; the foreign
  key of the join table makes the post of every row exist, and a row without one
  contributes nothing here.
\<close>

record ProductWithPosts =
  pwposts_product :: Product
  pwposts_posts :: "Post list"

definition include_posts :: "Store \<Rightarrow> Product \<Rightarrow> ProductWithPosts" where
  "include_posts db product =
     \<lparr>pwposts_product = product,
      pwposts_posts =
        List.map_filter (\<lambda>row. find (\<lambda>p. post_id p = pp_postId row) (posts db))
          (filter (\<lambda>row. pp_productId row = product_id product) (postProducts db))\<rparr>"

text \<open>\<open>GET /api/workspaces/[id]/products/[productId]\<close>\<close>

definition GET_product ::
  "Store \<Rightarrow> SessionUser option \<Rightarrow> string \<Rightarrow> string \<Rightarrow> ProductWithPosts Response" where
  "GET_product db session workspaceId productId =
     (case session of
        None \<Rightarrow> json_error ''Unauthorized'' 401
      | Some user \<Rightarrow>
         (case verifyProductAccess db workspaceId productId (user_id user) of
            Inl e \<Rightarrow> catch_access e
          | Inr _ \<Rightarrow>
             (case findProduct db workspaceId productId of
                None \<Rightarrow> json_error ''Product not found'' 404
              | Some product \<Rightarrow> json_ok None (Some (include_posts db product)))))"

section \<open>Workspaces: \<open>api/workspaces/route.ts\<close>\<close>

text \<open>
  \<open>GET /api/workspaces\<close>: the live workspaces the user is a member of, newest first,
  each with its membership rows. \<open>None\<close> for the store is a store that cannot be
  reached: the query throws. Every error is answered with 500.
\<close>

definition is_member_of :: "Store \<Rightarrow> string \<Rightarrow> Workspace \<Rightarrow> bool" where
  "is_member_of db userId w =
     list_ex (\<lambda>uw. uw_workspaceId uw = ws_id w \<and> uw_userId uw = userId) (userWorkspaces db)"

definition user_workspaces :: "Store \<Rightarrow> string \<Rightarrow> Workspace list" where
  "user_workspaces db userId =
     order_desc ws_createdAt
       (filter (\<lambda>w. is_member_of db userId w \<and> ws_deletedAt w = None) (workspaces db))"

definition include_users :: "Store \<Rightarrow> Workspace \<Rightarrow> Workspace \<times> UserWorkspace list" where
  "include_users db w = (w, filter (\<lambda>uw. uw_workspaceId uw = ws_id w) (userWorkspaces db))"

definition GET_workspaces ::
  "Store option \<Rightarrow> SessionUser option \<Rightarrow> (Workspace \<times> UserWorkspace list) list Response" where
  "GET_workspaces store session =
     (case session of
        None \<Rightarrow> json_error ''Unauthorized'' 401
      | Some user \<Rightarrow>
         (case store of
            None \<Rightarrow> json_error ''Internal server error'' 500
          | Some db \<Rightarrow> json_ok None (Some (map (include_users db) (user_workspaces db (user_id user))))))"

record CreateWorkspace =
  cw_name :: string
  cw_description :: "string option"
  cw_slug :: "string option"

text \<open>
  \<open>prisma.workspace.findUnique({ where: { slug } })\<close>: the lookup does not look at the
  delete timestamp.
\<close>

definition findWorkspaceBySlug :: "Store \<Rightarrow> string \<Rightarrow> Workspace option" where
  "findWorkspaceBySlug db slug = find (\<lambda>w. ws_slug w = slug) (workspaces db)"

text \<open>
  \<open>prisma.workspace.create\<close> with the nested membership of the creator; the unique
  index \<open>workspaces_slug_key\<close> on the slug and the primary key are those of the
  migration SQL. The
  table of users is not part of the model: the session's user is taken to exist.
\<close>

definition workspace_create :: "Store \<Rightarrow> Workspace \<Rightarrow> string \<Rightarrow> exn + Store" where
  "workspace_create db w userId =
     (if list_ex (\<lambda>v. ws_id v = ws_id w) (workspaces db)
      then Inl (PrismaError ''Unique constraint failed on the fields: (`id`)'')
      else if list_ex (\<lambda>v. ws_slug v = ws_slug w) (workspaces db)
      then Inl (PrismaError ''Unique constraint failed on the fields: (`slug`)'')
      else Inr (db\<lparr>workspaces := workspaces db @ [w],
                    userWorkspaces := userWorkspaces db
                      @ [\<lparr>uw_userId = userId, uw_workspaceId = ws_id w, uw_role = OWNER\<rparr>]\<rparr>))"

definition catch_create_workspace :: "exn \<Rightarrow> 'a Response" where
  "catch_create_workspace e =
     (if is_ZodError e then json_error ''Validation failed'' 400
      else json_error ''Internal server error'' 500)"

text \<open>The slug the handler wants to store, before the uniqueness check.\<close>

definition desired_workspace_slug :: "CreateWorkspace \<Rightarrow> string" where
  "desired_workspace_slug d =
     (let slug = or_else (cw_slug d) (generateSlug (cw_name d))
      in if \<not> isValidSlug slug then generateSlug (cw_name d) else slug)"

text \<open>\<open>POST /api/workspaces\<close>\<close>

definition POST_workspaces ::
  "Store \<Rightarrow> SessionUser option \<Rightarrow> CreateWorkspace body \<Rightarrow> string \<Rightarrow> string \<Rightarrow> nat
     \<Rightarrow> (Workspace \<times> UserWorkspace list) Response \<times> Store" where
  "POST_workspaces db session body rnd newId now =
     (case session of
        None \<Rightarrow> (json_error ''Unauthorized'' 401, db)
      | Some user \<Rightarrow>
         (case parse_body body of
            Inl e \<Rightarrow> (catch_create_workspace e, db)
          | Inr d \<Rightarrow>
             (let slug0 = desired_workspace_slug d;
                  slug = (case findWorkspaceBySlug db slug0 of
                            None \<Rightarrow> slug0
                          | Some existingWorkspace \<Rightarrow> with_suffix slug0 rnd);
                  workspace = \<lparr>ws_id = newId, ws_name = cw_name d, ws_slug = slug,
                               ws_description = cw_description d, ws_createdAt = now,
                               ws_updatedAt = now, ws_deletedAt = None\<rparr>
              in case workspace_create db workspace (user_id user) of
                   Inl e \<Rightarrow> (catch_create_workspace e, db)
                 | Inr db' \<Rightarrow>
                     (json_ok (Some ''Workspace created successfully'')
                        (Some (include_users db' workspace)), db'))))"

section \<open>Tenant routing: \<open>middleware.ts\<close>\<close>

text \<open>
  What the middleware's internal \<open>fetch\<close> of \<open>/api/workspaces\<close> gives: the call throws,
  or a response arrives with a status and a body that is not JSON, or JSON whose
  \<open>data\<close> field is absent or a list of workspaces.
\<close>

datatype json_body = NotJson | JsonData "Workspace list option"

datatype fetch_result = FetchThrows | HttpResponse nat json_body

datatype action = Redirect string | Next

text \<open>\<open>response.ok\<close>\<close>

definition response_ok :: "nat \<Rightarrow> bool" where
  "response_ok st = (200 \<le> st \<and> st \<le> 299)"

text \<open>
  The choice of the target among a non-empty list: the workspace whose slug is the
  cookie's value when the cookie is set and some workspace has that slug, and
  \<open>workspaces[0]\<close> otherwise.
\<close>

fun targetWorkspace :: "string option \<Rightarrow> Workspace list \<Rightarrow> Workspace option" where
  "targetWorkspace lastWorkspace [] = None"
| "targetWorkspace lastWorkspace (w # ws) =
     (if truthy lastWorkspace then
        (case find (\<lambda>v. Some (ws_slug v) = lastWorkspace) (w # ws) of
           Some found \<Rightarrow> Some found
         | None \<Rightarrow> Some w)
      else Some w)"

text \<open>
  The dashboard branch: \<open>Some\<close> is the redirect it returns, \<open>None\<close> is falling
  through to the rest of the middleware (a failed lookup, or no workspace).
\<close>

definition dashboard_redirect :: "string option \<Rightarrow> fetch_result \<Rightarrow> action option" where
  "dashboard_redirect lastWorkspace fetched =
     (case fetched of
        FetchThrows \<Rightarrow> None
      | HttpResponse st body \<Rightarrow>
          if response_ok st then
            (case body of
               NotJson \<Rightarrow> None
             | JsonData None \<Rightarrow> None
             | JsonData (Some found) \<Rightarrow>
                 (case targetWorkspace lastWorkspace found of
                    None \<Rightarrow> None
                  | Some target \<Rightarrow> Some (Redirect (''/'' @ ws_slug target @ ''/dashboard''))))
          else None)"

definition publicRoutes :: "string list" where
  "publicRoutes = [''/'', ''/auth/signin'', ''/auth/signup'']"

text \<open>
  \<open>middleware(request)\<close>: \<open>session\<close> is the result of \<open>auth()\<close>, \<open>lastWorkspace\<close> the
  value of the cookie \<open>affiflow_last_workspace\<close>, and \<open>fetched\<close> the outcome of the
  fetch, which the middleware performs only on the path \<open>/dashboard\<close>.
\<close>

definition middleware ::
  "SessionUser option \<Rightarrow> string \<Rightarrow> string option \<Rightarrow> fetch_result \<Rightarrow> action" where
  "middleware session pathname lastWorkspace fetched =
     (let isPublicRoute = (pathname \<in> set publicRoutes)
      in if session = None \<and> \<not> isPublicRoute then Redirect ''/auth/signin''
         else if session \<noteq> None \<and> (pathname = ''/auth/signin'' \<or> pathname = ''/auth/signup'')
         then Redirect ''/dashboard''
         else
           (case (if session \<noteq> None \<and> pathname = ''/dashboard''
                  then dashboard_redirect lastWorkspace fetched else None) of
              Some redirect \<Rightarrow> redirect
            | None \<Rightarrow>
               (case session of
                  Some user \<Rightarrow>
                    if starts_with pathname ''/admin'' \<and> user_role user \<noteq> PLATFORM_ADMIN
                       \<and> user_role user \<noteq> SUPER_ADMIN
                    then Redirect ''/dashboard'' else Next
                | None \<Rightarrow> Next)))"

text \<open>
  The fetch as the route handler above answers it: the request forwards the caller's
  cookie, so the handler sees the caller's session; \<open>reachable\<close> is false when the
  internal request itself fails.
\<close>

definition fetch_workspaces :: "bool \<Rightarrow> Store option \<Rightarrow> SessionUser option \<Rightarrow> fetch_result" where
  "fetch_workspaces reachable store session =
     (if reachable
      then (let r = GET_workspaces store session
            in HttpResponse (status r) (JsonData (map_option (map fst) (data r))))
      else FetchThrows)"

section \<open>Sequences of requests\<close>

text \<open>
  The requests to the handlers of posts, categories and workspaces that write to the
  store, each with the inputs of its handler, and the store after a request and after
  a list of requests served one after the other.
\<close>

datatype request =
    Req_POST_posts "SessionUser option" string "CreatePost body" string string nat
  | Req_PUT_post "SessionUser option" string string "UpdatePost body" string nat
  | Req_DELETE_post "SessionUser option" string string nat
  | Req_DELETE_category "SessionUser option" string string
  | Req_POST_workspaces "SessionUser option" "CreateWorkspace body" string string nat

fun serve :: "Store \<Rightarrow> request \<Rightarrow> Store" where
  "serve db (Req_POST_posts session workspaceId body rnd newId now) =
     snd (POST_posts db session workspaceId body rnd newId now)"
| "serve db (Req_PUT_post session workspaceId postId body rnd now) =
     snd (PUT_post db session workspaceId postId body rnd now)"
| "serve db (Req_DELETE_post session workspaceId postId now) =
     snd (DELETE_post db session workspaceId postId now)"
| "serve db (Req_DELETE_category session workspaceId categoryId) =
     snd (DELETE_category db session workspaceId categoryId)"
| "serve db (Req_POST_workspaces session body rnd newId now) =
     snd (POST_workspaces db session body rnd newId now)"

definition serve_all :: "Store \<Rightarrow> request list \<Rightarrow> Store" where
  "serve_all db reqs = foldl serve db reqs"

text \<open>The ids of the posts in the answer of the list handler.\<close>

definition listed_post_ids :: "PostsPage Response \<Rightarrow> string list" where
  "listed_post_ids r =
     (case data r of None \<Rightarrow> [] | Some page \<Rightarrow> map (\<lambda>pw. post_id (pwp_post pw)) (page_posts page))"

section \<open>Slug patterns\<close>

text \<open>
  \<open>^<base>-[a-z0-9]{6}$\<close> with \<open>base\<close> read literally: the string is \<open>base\<close>, a
  hyphen, and exactly six characters, each a lowercase letter or a digit.
\<close>

definition matches_suffixed :: "string \<Rightarrow> string \<Rightarrow> bool" where
  "matches_suffixed base s =
     (take (length base + 1) s = base @ ''-'' \<and>
      length (drop (length base + 1) s) = 6 \<and>
      list_all is_slug_char (drop (length base + 1) s))"

section \<open>Example store\<close>

text \<open>
  Two workspaces; \<open>alice\<close> owns the first and is a member of the second, \<open>bob\<close> is a
  member of the first. The first workspace was created earlier and updated later
  than the second.
\<close>

definition ws_a :: Workspace where
  "ws_a = \<lparr>ws_id = ''wA'', ws_name = ''Odecor'', ws_slug = ''odecor'', ws_description = None,
           ws_createdAt = 1, ws_updatedAt = 10, ws_deletedAt = None\<rparr>"

definition ws_b :: Workspace where
  "ws_b = \<lparr>ws_id = ''wB'', ws_name = ''Garden'', ws_slug = ''garden'', ws_description = None,
           ws_createdAt = 2, ws_updatedAt = 2, ws_deletedAt = None\<rparr>"

definition post_1 :: Post where
  "post_1 = \<lparr>post_id = ''p1'', post_title = ''Lamp review'', post_content = None,
             post_excerpt = None, post_slug = ''lamp-review'', post_videoUrl = None,
             post_videoType = None, post_thumbnail = None, post_isPublished = False,
             post_publishedAt = None, post_workspaceId = ''wA'', post_createdAt = 3,
             post_deletedAt = None\<rparr>"

definition post_2 :: Post where
  "post_2 = \<lparr>post_id = ''p2'', post_title = ''Roses'', post_content = None,
             post_excerpt = None, post_slug = ''roses'', post_videoUrl = None,
             post_videoType = None, post_thumbnail = None, post_isPublished = False,
             post_publishedAt = None, post_workspaceId = ''wB'', post_createdAt = 4,
             post_deletedAt = None\<rparr>"

definition product_lamp :: Product where
  "product_lamp = \<lparr>product_id = ''prA'', product_name = ''Lamp X'', product_workspaceId = ''wA'',
                   product_categoryId = Some ''cA'', product_activeAffiliateLinkId = Some ''lA''\<rparr>"

definition product_rose :: Product where
  "product_rose = \<lparr>product_id = ''prB'', product_name = ''Rose'', product_workspaceId = ''wB'',
                   product_categoryId = None, product_activeAffiliateLinkId = None\<rparr>"

definition category_lighting :: Category where
  "category_lighting = \<lparr>category_id = ''cA'', category_name = ''Lighting'',
                        category_workspaceId = ''wA''\<rparr>"

definition category_empty :: Category where
  "category_empty = \<lparr>category_id = ''cE'', category_name = ''Unused'',
                     category_workspaceId = ''wA''\<rparr>"

definition link_a :: AffiliateLink where
  "link_a = \<lparr>link_id = ''lA'', link_name = ''Shop'', link_affiliateUrl = ''https://shopee.vn/x'',
             link_productId = ''prA'', link_workspaceId = ''wA'', link_createdAt = 5\<rparr>"

definition link_b :: AffiliateLink where
  "link_b = \<lparr>link_id = ''lB'', link_name = ''Nursery'', link_affiliateUrl = ''https://shopee.vn/y'',
             link_productId = ''prB'', link_workspaceId = ''wB'', link_createdAt = 6\<rparr>"

definition alice :: SessionUser where
  "alice = \<lparr>user_id = ''alice'', user_role = USER\<rparr>"

definition bob :: SessionUser where
  "bob = \<lparr>user_id = ''bob'', user_role = USER\<rparr>"

definition store0 :: Store where
  "store0 =
     \<lparr>userWorkspaces =
        [\<lparr>uw_userId = ''alice'', uw_workspaceId = ''wA'', uw_role = OWNER\<rparr>,
         \<lparr>uw_userId = ''alice'', uw_workspaceId = ''wB'', uw_role = MEMBER\<rparr>,
         \<lparr>uw_userId = ''bob'', uw_workspaceId = ''wA'', uw_role = MEMBER\<rparr>],
      workspaces = [ws_a, ws_b],
      posts = [post_1, post_2],
      products = [product_lamp, product_rose],
      categories = [category_lighting, category_empty],
      affiliateLinks = [link_a, link_b],
      postProducts = [\<lparr>pp_postId = ''p1'', pp_productId = ''prA''\<rparr>]\<rparr>"

section \<open>Properties\<close>

subsection \<open>Workspace access\<close>

lemma find_same_key:
  "distinct (map k xs) \<Longrightarrow> x \<in> set xs \<Longrightarrow> find (\<lambda>y. k y = k x) xs = Some x"
proof (induction xs)
  case Nil
  then show ?case by simp
next
  case (Cons a xs)
  show ?case
  proof (cases "a = x")
    case True
    then show ?thesis by simp
  next
    case False
    with Cons.prems have xin: "x \<in> set xs" by simp
    with Cons.prems(1) have "k a \<noteq> k x" by force
    moreover from Cons.IH Cons.prems(1) xin have "find (\<lambda>y. k y = k x) xs = Some x" by simp
    ultimately show ?thesis by simp
  qed
qed

lemma find_unique_key:
  assumes "distinct (map k xs)" and "x \<in> set xs" and "\<And>y. P y = (k y = k x)"
  shows "find P xs = Some x"
proof -
  from assms(3) have "P = (\<lambda>y. k y = k x)" by (intro ext) simp
  with find_same_key [OF assms(1,2)] show ?thesis by simp
qed

lemma findMembership_None:
  "(findMembership db w u = None) =
     (\<not> (\<exists>m \<in> set (userWorkspaces db). uw_workspaceId m = w \<and> uw_userId m = u))"
  by (auto simp: findMembership_def find_None_iff)

lemma findMembership_unique:
  assumes "membership_unique db" and "m \<in> set (userWorkspaces db)"
  shows "findMembership db (uw_workspaceId m) (uw_userId m) = Some m"
  unfolding findMembership_def
  by (rule find_unique_key [where k = "\<lambda>uw. (uw_userId uw, uw_workspaceId uw)"])
     (use assms in \<open>auto simp: membership_unique_def\<close>)

text \<open>
  C1. The workspace authorization check, for every triple (user, workspace, required
  role): it denies when the store holds no membership for the pair; when the store
  holds the (unique) membership \<open>m\<close> of the pair, it denies if the rank of \<open>m\<close>'s role
  is strictly below the rank of the required role and otherwise allows and returns
  \<open>m\<close>; the ranks are MEMBER 0, ADMIN 1, OWNER 2.
\<close>

theorem verifyWorkspaceAccess_decides:
  "roleHierarchy MEMBER = 0 \<and> roleHierarchy ADMIN = 1 \<and> roleHierarchy OWNER = 2 \<and>
   ((\<forall>m \<in> set (userWorkspaces db). \<not> (uw_workspaceId m = workspaceId \<and> uw_userId m = userId))
      \<longrightarrow> verifyWorkspaceAccessRole db workspaceId userId requiredRole
            = Inl (Error ''Workspace not found or access denied'')) \<and>
   (membership_unique db \<longrightarrow>
      (\<forall>m \<in> set (userWorkspaces db).
         uw_workspaceId m = workspaceId \<and> uw_userId m = userId \<longrightarrow>
           verifyWorkspaceAccessRole db workspaceId userId requiredRole
             = (if roleHierarchy (uw_role m) < roleHierarchy requiredRole
                then Inl (Error ''Insufficient permissions'') else Inr m)))"
proof -
  have none: "verifyWorkspaceAccessRole db workspaceId userId requiredRole
            = Inl (Error ''Workspace not found or access denied'')"
    if "\<forall>m \<in> set (userWorkspaces db). \<not> (uw_workspaceId m = workspaceId \<and> uw_userId m = userId)"
  proof -
    from that have "findMembership db workspaceId userId = None"
      by (simp add: findMembership_None)
    then show ?thesis by (simp add: verifyWorkspaceAccessRole_def)
  qed
  have some: "verifyWorkspaceAccessRole db workspaceId userId requiredRole
             = (if roleHierarchy (uw_role m) < roleHierarchy requiredRole
                then Inl (Error ''Insufficient permissions'') else Inr m)"
    if "membership_unique db" "m \<in> set (userWorkspaces db)"
       "uw_workspaceId m = workspaceId" "uw_userId m = userId" for m
  proof -
    from findMembership_unique [OF that(1,2)] that(3,4)
    have "findMembership db workspaceId userId = Some m" by simp
    then show ?thesis by (simp add: verifyWorkspaceAccessRole_def)
  qed
  from none some show ?thesis by simp
qed

theorem verifyWorkspaceAccess_decides_witness:
  "membership_unique store0 \<and>
   verifyWorkspaceAccessRole store0 ''wA'' ''carol'' MEMBER
     = Inl (Error ''Workspace not found or access denied'') \<and>
   verifyWorkspaceAccessRole store0 ''wA'' ''bob'' ADMIN = Inl (Error ''Insufficient permissions'') \<and>
   verifyWorkspaceAccessRole store0 ''wA'' ''alice'' ADMIN
     = Inr \<lparr>uw_userId = ''alice'', uw_workspaceId = ''wA'', uw_role = OWNER\<rparr>"
proof -
  have u: "membership_unique store0"
    by (simp add: membership_unique_def store0_def)
  have n: "\<forall>m \<in> set (userWorkspaces store0). \<not> (uw_workspaceId m = ''wA'' \<and> uw_userId m = ''carol'')"
    by (simp add: store0_def)
  from verifyWorkspaceAccess_decides [of store0 "''wA''" "''carol''" MEMBER] n
  have a: "verifyWorkspaceAccessRole store0 ''wA'' ''carol'' MEMBER
     = Inl (Error ''Workspace not found or access denied'')" by blast
  from verifyWorkspaceAccess_decides [of store0 "''wA''" "''bob''" ADMIN] u
  have b: "verifyWorkspaceAccessRole store0 ''wA'' ''bob'' ADMIN = Inl (Error ''Insufficient permissions'')"
    by (simp add: store0_def)
  from verifyWorkspaceAccess_decides [of store0 "''wA''" "''alice''" ADMIN] u
  have c: "verifyWorkspaceAccessRole store0 ''wA'' ''alice'' ADMIN
     = Inr \<lparr>uw_userId = ''alice'', uw_workspaceId = ''wA'', uw_role = OWNER\<rparr>"
    by (simp add: store0_def)
  from u a b c show ?thesis by blast
qed

subsection \<open>Workspace isolation of the reads\<close>

lemma set_take_rows: "set (take_rows n xs) \<subseteq> set xs"
  by (induction xs arbitrary: n) auto

lemma set_drop_rows: "set (drop_rows n xs) \<subseteq> set xs"
  by (induction xs arbitrary: n) auto

lemma in_take_drop: "x \<in> set (take_rows n (drop_rows k zs)) \<Longrightarrow> x \<in> set zs"
  using set_take_rows [of n "drop_rows k zs"] set_drop_rows [of k zs] by blast

lemma paginate_subset: "paginate s t xs = Inr ys \<Longrightarrow> set ys \<subseteq> set xs"
  using in_take_drop [of _ _ _ xs] in_take_drop [of _ _ _ "rev xs"]
  by (fastforce simp: paginate_def split: if_splits option.splits)

lemma set_order_desc: "set (order_desc k xs) = set xs"
  by (simp add: order_desc_def)

lemma links_with_stats_links: "links_with_stats db ls = Inr rs \<Longrightarrow> map lws_link rs = ls"
  by (induction ls arbitrary: rs) (auto split: option.splits sum.splits)

lemma GET_posts_data:
  assumes "data (GET_posts db session A query) = Some page" and "pw \<in> set (page_posts page)"
  shows "pwp_post pw \<in> set (posts db) \<and> post_workspaceId (pwp_post pw) = A
         \<and> post_deletedAt (pwp_post pw) = None"
proof -
  from assms obtain found search published where
    f: "set found \<subseteq> set (filter (posts_where A search published) (posts db))"
    and p: "page_posts page = map (include_products db) found"
    by (auto simp: GET_posts_def json_error_def json_ok_def catch_access_def Let_def set_order_desc
        split: option.splits sum.splits if_splits prod.splits dest!: paginate_subset)
  with assms(2) show ?thesis
    by (auto simp: include_products_def posts_where_def)
qed

lemma GET_affiliate_links_data:
  assumes "data (GET_affiliate_links db session A) = Some links" and "l \<in> set links"
  shows "lws_link l \<in> set (affiliateLinks db) \<and> link_workspaceId (lws_link l) = A"
proof -
  from assms(1) have "map lws_link links
      = order_desc link_createdAt (filter (\<lambda>l. link_workspaceId l = A) (affiliateLinks db))"
    by (auto simp: GET_affiliate_links_def json_error_def json_ok_def catch_access_def
        split: option.splits sum.splits if_splits dest!: links_with_stats_links)
  then have "set (map lws_link links) = set (filter (\<lambda>l. link_workspaceId l = A) (affiliateLinks db))"
    by (simp add: set_order_desc)
  moreover from assms(2) have "lws_link l \<in> set (map lws_link links)" by simp
  ultimately show ?thesis by auto
qed

lemma findPost_Some:
  "findPost db A postId = Some p \<Longrightarrow>
     p \<in> set (posts db) \<and> post_id p = postId \<and> post_workspaceId p = A \<and> post_deletedAt p = None"
  by (auto simp: findPost_def find_Some_iff)

lemma GET_post_data:
  assumes "data (GET_post db session A postId) = Some (pw, w)"
  shows "pwp_post pw \<in> set (posts db) \<and> post_id (pwp_post pw) = postId
         \<and> post_workspaceId (pwp_post pw) = A \<and> post_deletedAt (pwp_post pw) = None"
  using assms
  by (auto simp: GET_post_def json_error_def json_ok_def catch_access_def include_products_def
      split: option.splits sum.splits if_splits dest!: findPost_Some)

text \<open>
  The rows a read of workspace \<open>A\<close> answers are rows of \<open>A\<close>: every post in the
  answer of the post list, every affiliate link in the answer of the link list, and
  the post in the answer of a single-post read has workspace id \<open>A\<close>. This says
  nothing of the resources embedded in a row.
\<close>

lemma answered_rows_in_workspace:
  "(\<forall>page pw. data (GET_posts db session A query) = Some page \<longrightarrow> pw \<in> set (page_posts page)
      \<longrightarrow> post_workspaceId (pwp_post pw) = A) \<and>
   (\<forall>links l. data (GET_affiliate_links db session A) = Some links \<longrightarrow> l \<in> set links
      \<longrightarrow> link_workspaceId (lws_link l) = A) \<and>
   (\<forall>pw w. data (GET_post db session A postId) = Some (pw, w)
      \<longrightarrow> post_workspaceId (pwp_post pw) = A)"
  using GET_posts_data [of db session A query] GET_affiliate_links_data [of db session A]
    GET_post_data [of db session A postId]
  by blast


subsection \<open>Responses\<close>

lemma json_error_fields [simp]:
  "status (json_error e st :: 'a Response) = st"
  "success (json_error e st :: 'a Response) = False"
  "data (json_error e st :: 'a Response) = None"
  "error (json_error e st :: 'a Response) = Some e"
  by (simp_all add: json_error_def)

lemma json_ok_fields [simp]:
  "status (json_ok m d) = 200" "success (json_ok m d) = True"
  "data (json_ok m d) = d" "message (json_ok m d) = m"
  by (simp_all add: json_ok_def)

lemma catch_access_fails [simp]:
  "\<not> success (catch_access e :: 'a Response)"
  "status (catch_access e :: 'a Response) \<in> {403, 500}"
  "data (catch_access e :: 'a Response) = None"
  by (simp_all add: catch_access_def)

lemma catch_validation_fails [simp]:
  "\<not> success (catch_validation e :: 'a Response)"
  "status (catch_validation e :: 'a Response) \<in> {400, 403, 500}"
  "data (catch_validation e :: 'a Response) = None"
  by (simp_all add: catch_validation_def catch_access_def)

subsection \<open>Deleting a category\<close>

text \<open>
  C5. A category-delete request for a category that \<open>N > 0\<close> products reference
  never succeeds and leaves the whole store (so the category and every product) as it
  was, and for a caller who passes the access check the answer is the conflict
  rejection: status 400, error \<open>Cannot delete category\<close>, with \<open>N\<close> in the message.
  The store changes only when no product references the category, and then, for a
  caller who passes the access check, the category row is removed (a hard delete).
\<close>

theorem category_delete_guard:
  "(0 < productCount db categoryId \<longrightarrow>
      snd (DELETE_category db session workspaceId categoryId) = db \<and>
      \<not> success (fst (DELETE_category db session workspaceId categoryId)) \<and>
      (\<forall>user m c. session = Some user \<longrightarrow>
         verifyCategoryAccess db workspaceId categoryId (user_id user) = Inr (m, c) \<longrightarrow>
         fst (DELETE_category db session workspaceId categoryId)
           = \<lparr>status = 400, success = False, error = Some ''Cannot delete category'',
              message = Some (''Category has '' @ show_nat (productCount db categoryId)
                               @ '' product(s). Remove products from category first.''),
              data = None\<rparr>)) \<and>
   (snd (DELETE_category db session workspaceId categoryId) \<noteq> db \<longrightarrow>
      productCount db categoryId = 0) \<and>
   (productCount db categoryId = 0 \<longrightarrow>
      (\<forall>user m c. session = Some user \<longrightarrow>
         verifyCategoryAccess db workspaceId categoryId (user_id user) = Inr (m, c) \<longrightarrow>
         success (fst (DELETE_category db session workspaceId categoryId)) \<and>
         snd (DELETE_category db session workspaceId categoryId)
           = db\<lparr>categories := filter (\<lambda>c. category_id c \<noteq> categoryId) (categories db)\<rparr>))"
  by (auto simp: DELETE_category_def cannot_delete_category_def category_delete_def
        verifyCategoryAccess_def list_ex_iff find_Some_iff
      split: option.splits sum.splits if_splits)

theorem category_delete_guard_witness:
  "0 < productCount store0 ''cA'' \<and>
   snd (DELETE_category store0 (Some alice) ''wA'' ''cA'') = store0 \<and>
   fst (DELETE_category store0 (Some alice) ''wA'' ''cA'')
     = \<lparr>status = 400, success = False, error = Some ''Cannot delete category'',
        message = Some ''Category has 1 product(s). Remove products from category first.'',
        data = None\<rparr> \<and>
   productCount store0 ''cE'' = 0 \<and>
   success (fst (DELETE_category store0 (Some alice) ''wA'' ''cE'')) \<and>
   map category_id (categories (snd (DELETE_category store0 (Some alice) ''wA'' ''cE''))) = [''cA'']"
proof -
  have n: "productCount store0 ''cA'' = 1" "productCount store0 ''cE'' = 0"
    by code_simp+
  have a: "verifyCategoryAccess store0 ''wA'' ''cA'' (user_id alice)
             = Inr (\<lparr>uw_userId = ''alice'', uw_workspaceId = ''wA'', uw_role = OWNER\<rparr>, category_lighting)"
    "verifyCategoryAccess store0 ''wA'' ''cE'' (user_id alice)
             = Inr (\<lparr>uw_userId = ''alice'', uw_workspaceId = ''wA'', uw_role = OWNER\<rparr>, category_empty)"
    by code_simp+
  have s: "show_nat 1 = ''1''" by code_simp
  have c: "map category_id (filter (\<lambda>c. category_id c \<noteq> ''cE'') (categories store0)) = [''cA'']"
    by code_simp
  from category_delete_guard [of store0 "''cA''" "Some alice" "''wA''"] n(1) a(1) s
  have 1: "snd (DELETE_category store0 (Some alice) ''wA'' ''cA'') = store0 \<and>
    fst (DELETE_category store0 (Some alice) ''wA'' ''cA'')
     = \<lparr>status = 400, success = False, error = Some ''Cannot delete category'',
        message = Some ''Category has 1 product(s). Remove products from category first.'',
        data = None\<rparr>"
    by simp
  from category_delete_guard [of store0 "''cE''" "Some alice" "''wA''"] n(2) a(2) c
  have 2: "success (fst (DELETE_category store0 (Some alice) ''wA'' ''cE'')) \<and>
    map category_id (categories (snd (DELETE_category store0 (Some alice) ''wA'' ''cE''))) = [''cA'']"
    by simp
  from n 1 2 show ?thesis by simp
qed

subsection \<open>Status of a request for a post that is not there\<close>

text \<open>
  C7. The claim asks for status 404 when the addressed post is absent, soft-deleted or
  in another workspace. Evaluated on the example store for a member of the workspace:
  a post id that does not exist, a post of another workspace and a soft-deleted post
  are all answered with 500 by the read, and the missing post also by the update and
  the delete; a caller who is not a member gets 403.
\<close>

theorem missing_post_status:
  "status (GET_post store0 (Some alice) ''wA'' ''missing'') = 500 \<and>
   status (GET_post store0 (Some alice) ''wA'' ''p2'') = 500 \<and>
   status (GET_post (snd (DELETE_post store0 (Some alice) ''wA'' ''p1'' 9)) (Some alice) ''wA'' ''p1'') = 500 \<and>
   status (fst (DELETE_post store0 (Some alice) ''wA'' ''missing'' 9)) = 500 \<and>
   status (fst (PUT_post store0 (Some alice) ''wA'' ''missing''
                  (Parsed \<lparr>up_title = Some ''New'', up_content = None, up_excerpt = None,
                           up_slug = None, up_videoUrl = None, up_videoType = None,
                           up_thumbnail = None, up_isPublished = None, up_publishedAt = None,
                           up_productIds = None\<rparr>) ''0.4fzyo82mvyr'' 9)) = 500 \<and>
   status (GET_post store0 (Some bob) ''wB'' ''p2'') = 403"
  by code_simp

subsection \<open>Tenant routing\<close>

lemma not_admin_path [simp]: "\<not> starts_with ''/dashboard'' ''/admin''"
  by simp

lemma middleware_dashboard:
  "middleware (Some user) ''/dashboard'' lastWorkspace fetched
     = (case dashboard_redirect lastWorkspace fetched of Some r \<Rightarrow> r | None \<Rightarrow> Next)"
  by (simp add: middleware_def publicRoutes_def split: option.splits)

lemma targetWorkspace_cookie:
  assumes "c \<noteq> []" and "w \<in> set wss" and "ws_slug w = c"
  shows "\<exists>t. targetWorkspace (Some c) wss = Some t \<and> ws_slug t = c"
proof -
  from assms(2,3) have "find (\<lambda>v. Some (ws_slug v) = Some c) wss \<noteq> None"
    by (auto simp: find_None_iff)
  then obtain t where t: "find (\<lambda>v. Some (ws_slug v) = Some c) wss = Some t" by auto
  then have "ws_slug t = c" by (auto simp: find_Some_iff)
  with t assms(1,2) show ?thesis by (cases wss) (auto simp: truthy_def)
qed

lemma targetWorkspace_first:
  assumes "\<not> truthy lastWorkspace \<or> lastWorkspace \<notin> Some ` ws_slug ` set (w # rest)"
  shows "targetWorkspace lastWorkspace (w # rest) = Some w"
proof (cases "truthy lastWorkspace")
  case False
  then show ?thesis by simp
next
  case True
  with assms have "find (\<lambda>v. Some (ws_slug v) = lastWorkspace) (w # rest) = None"
    unfolding find_None_iff by force
  with True show ?thesis by simp
qed

lemma user_workspaces_set:
  "set (user_workspaces db uid)
     = {w \<in> set (workspaces db). is_member_of db uid w \<and> ws_deletedAt w = None}"
  by (auto simp: user_workspaces_def order_desc_def)

lemma order_desc_head:
  assumes "order_desc key xs = w # rest" and "v \<in> set rest"
  shows "key v \<le> key w"
proof -
  have "sorted (map (\<lambda>x. - int (key x)) (order_desc key xs))"
    by (simp add: order_desc_def)
  with assms show ?thesis by auto
qed

text \<open>
  C6, as the middleware does it. For an authenticated request to \<open>/dashboard\<close> whose
  lookup is answered with an OK status: with an empty list the request continues to
  \<open>/dashboard\<close> (onboarding); with a non-empty cookie whose value is the slug of a
  workspace of the list, the redirect goes to that slug's dashboard; with no cookie,
  an empty one, or one that matches no workspace of the list, the redirect goes to the
  first workspace of the list. The list the route handler answers with is the user's
  live workspaces, none of its later elements created after the first. The time of the
  last update plays no part.
\<close>

theorem dashboard_target:
  "(response_ok st \<longrightarrow>
      middleware (Some user) ''/dashboard'' lastWorkspace (HttpResponse st (JsonData (Some []))) = Next) \<and>
   (response_ok st \<longrightarrow>
      (\<forall>c w. lastWorkspace = Some c \<longrightarrow> c \<noteq> [] \<longrightarrow> w \<in> set wss \<longrightarrow> ws_slug w = c \<longrightarrow>
         middleware (Some user) ''/dashboard'' lastWorkspace (HttpResponse st (JsonData (Some wss)))
           = Redirect (''/'' @ c @ ''/dashboard''))) \<and>
   (response_ok st \<longrightarrow>
      (\<forall>w rest. wss = w # rest \<longrightarrow>
         (\<not> truthy lastWorkspace \<or> lastWorkspace \<notin> Some ` ws_slug ` set wss) \<longrightarrow>
         middleware (Some user) ''/dashboard'' lastWorkspace (HttpResponse st (JsonData (Some wss)))
           = Redirect (''/'' @ ws_slug w @ ''/dashboard''))) \<and>
   fetch_workspaces True (Some db) (Some user)
     = HttpResponse 200 (JsonData (Some (user_workspaces db (user_id user)))) \<and>
   set (user_workspaces db (user_id user))
     = {w \<in> set (workspaces db). is_member_of db (user_id user) w \<and> ws_deletedAt w = None} \<and>
   (\<forall>w rest v. user_workspaces db (user_id user) = w # rest \<longrightarrow> v \<in> set rest
      \<longrightarrow> ws_createdAt v \<le> ws_createdAt w)"
proof -
  have a: "middleware (Some user) ''/dashboard'' lastWorkspace (HttpResponse st (JsonData (Some []))) = Next"
    by (simp add: middleware_dashboard dashboard_redirect_def)
  have b: "middleware (Some user) ''/dashboard'' lastWorkspace (HttpResponse st (JsonData (Some wss)))
           = Redirect (''/'' @ c @ ''/dashboard'')"
    if "response_ok st" "lastWorkspace = Some c" "c \<noteq> []" "w \<in> set wss" "ws_slug w = c" for c w
    using targetWorkspace_cookie [OF that(3,4,5)] that(1,2)
    by (auto simp: middleware_dashboard dashboard_redirect_def)
  have c: "middleware (Some user) ''/dashboard'' lastWorkspace (HttpResponse st (JsonData (Some wss)))
           = Redirect (''/'' @ ws_slug w @ ''/dashboard'')"
    if "response_ok st" "wss = w # rest"
       "\<not> truthy lastWorkspace \<or> lastWorkspace \<notin> Some ` ws_slug ` set wss" for w rest
    using targetWorkspace_first [of lastWorkspace w rest] that
    by (simp add: middleware_dashboard dashboard_redirect_def)
  have d: "fetch_workspaces True (Some db) (Some user)
     = HttpResponse 200 (JsonData (Some (user_workspaces db (user_id user))))"
    by (simp add: fetch_workspaces_def GET_workspaces_def include_users_def comp_def)
  have e: "ws_createdAt v \<le> ws_createdAt w"
    if "user_workspaces db (user_id user) = w # rest" "v \<in> set rest" for w rest v
    using that order_desc_head [of ws_createdAt _ w rest v] by (simp add: user_workspaces_def)
  from a b c d e user_workspaces_set [of db "user_id user"] show ?thesis by blast
qed

theorem dashboard_target_witness:
  "response_ok 200 \<and>
   user_workspaces store0 (user_id alice) = [ws_b, ws_a] \<and>
   middleware (Some alice) ''/dashboard'' (Some ''odecor'')
     (fetch_workspaces True (Some store0) (Some alice)) = Redirect ''/odecor/dashboard'' \<and>
   middleware (Some alice) ''/dashboard'' (Some ''elsewhere'')
     (fetch_workspaces True (Some store0) (Some alice)) = Redirect ''/garden/dashboard'' \<and>
   middleware (Some alice) ''/dashboard'' None
     (HttpResponse 200 (JsonData (Some []))) = Next"
proof -
  have ok: "response_ok 200" by (simp add: response_ok_def)
  have l: "user_workspaces store0 (user_id alice) = [ws_b, ws_a]" by code_simp
  have s: "ws_slug ws_a = ''odecor''" "ws_slug ws_b = ''garden''" by (simp_all add: ws_a_def ws_b_def)
  note t = dashboard_target [of 200 _ _ "[ws_b, ws_a]" store0]
  from t [of alice "Some ''odecor''"] ok l s
  have 1: "middleware (Some alice) ''/dashboard'' (Some ''odecor'')
     (fetch_workspaces True (Some store0) (Some alice)) = Redirect ''/odecor/dashboard''"
    by simp
  from t [of alice "Some ''elsewhere''"] ok l s
  have 2: "middleware (Some alice) ''/dashboard'' (Some ''elsewhere'')
     (fetch_workspaces True (Some store0) (Some alice)) = Redirect ''/garden/dashboard''"
    by simp
  from t [of alice None] ok
  have 3: "middleware (Some alice) ''/dashboard'' None (HttpResponse 200 (JsonData (Some []))) = Next"
    by simp
  from ok l 1 2 3 show ?thesis by simp
qed

text \<open>
  The claim as stated fails on the example store: with no cookie, the user's
  workspaces come back as \<open>garden\<close> (created last) and \<open>odecor\<close> (updated last), and
  the redirect goes to \<open>garden\<close>, not to the most recently updated workspace.
\<close>

theorem dashboard_target_counterexample:
  "middleware (Some alice) ''/dashboard'' None (fetch_workspaces True (Some store0) (Some alice))
     = Redirect ''/garden/dashboard'' \<and>
   map ws_slug (user_workspaces store0 ''alice'') = [''garden'', ''odecor''] \<and>
   map ws_updatedAt (user_workspaces store0 ''alice'') = [2, 10]"
  by code_simp

text \<open>
  C8. On \<open>/dashboard\<close>, for an authenticated user, a failed lookup lets the request
  through: when the fetch throws, when the response has a status that is not OK, when
  its body is not JSON, when the internal request itself fails, and when the store
  behind the route handler cannot be reached, the middleware answers \<open>Next\<close>.
\<close>

theorem dashboard_lookup_fails_open:
  "middleware (Some user) ''/dashboard'' lastWorkspace FetchThrows = Next \<and>
   (\<not> response_ok st \<longrightarrow>
      middleware (Some user) ''/dashboard'' lastWorkspace (HttpResponse st body) = Next) \<and>
   middleware (Some user) ''/dashboard'' lastWorkspace (HttpResponse st NotJson) = Next \<and>
   middleware (Some user) ''/dashboard'' lastWorkspace (fetch_workspaces False store session) = Next \<and>
   middleware (Some user) ''/dashboard'' lastWorkspace (fetch_workspaces True None session) = Next"
  by (auto simp: middleware_dashboard dashboard_redirect_def fetch_workspaces_def GET_workspaces_def
        response_ok_def Let_def split: option.splits)

theorem dashboard_lookup_fails_open_witness:
  "\<not> response_ok 500 \<and>
   middleware (Some alice) ''/dashboard'' (Some ''odecor'')
     (HttpResponse 500 (JsonData (Some [ws_a]))) = Next \<and>
   middleware (Some alice) ''/dashboard'' (Some ''odecor'') FetchThrows = Next \<and>
   middleware (Some alice) ''/dashboard'' (Some ''odecor'')
     (fetch_workspaces True None (Some alice)) = Next"
proof -
  have n: "\<not> response_ok 500" by (simp add: response_ok_def)
  from dashboard_lookup_fails_open [of alice "Some ''odecor''" 500 "JsonData (Some [ws_a])" _ "Some alice"] n
  show ?thesis by simp
qed

subsection \<open>Soft-deleted posts\<close>

lemma post_update_Inr:
  assumes "post_update db postId change = Inr db'"
  shows "db' = db\<lparr>posts := map (\<lambda>q. if post_id q = postId then change q else q) (posts db)\<rparr>"
  using assms by (auto simp: post_update_def split: option.splits if_splits)

lemma find_by_unique_id:
  assumes "distinct (map post_id ps)" and "p \<in> set ps"
    and "find P ps = Some q" and "post_id q = post_id p"
  shows "q = p"
proof -
  from assms(3) have "q \<in> set ps" by (auto simp: find_Some_iff)
  with assms(1,2,4) show ?thesis by (meson distinct_map inj_onD)
qed

lemma findPost_deleted:
  assumes "post_ids_unique db" and "p \<in> set (posts db)" and "post_deletedAt p \<noteq> None"
  shows "findPost db workspaceId (post_id p) = None"
proof (cases "findPost db workspaceId (post_id p)")
  case None
  then show ?thesis .
next
  case (Some q)
  then have q: "post_id q = post_id p" "post_deletedAt q = None"
    by (auto simp: findPost_def find_Some_iff)
  from assms(1) have "distinct (map post_id (posts db))" by (simp add: post_ids_unique_def)
  from find_by_unique_id [OF this assms(2) Some [unfolded findPost_def] q(1)] have "q = p" .
  with q(2) assms(3) show ?thesis by simp
qed

lemma verifyPostAccess_deleted:
  assumes "post_ids_unique db" and "p \<in> set (posts db)" and "post_deletedAt p \<noteq> None"
  shows "\<exists>e. verifyPostAccess db workspaceId (post_id p) userId = Inl e"
  using findPost_deleted [OF assms, of workspaceId]
  by (simp add: verifyPostAccess_def split: option.splits)

lemma postProduct_createMany_posts:
  "postProduct_createMany db postId ids = Inr db' \<Longrightarrow> posts db' = posts db"
  by (auto simp: postProduct_createMany_def Let_def split: if_splits)

lemma replace_products_posts:
  "replace_products db w postId ids = Inr db' \<Longrightarrow> posts db' = posts db"
  by (auto simp: replace_products_def postProduct_deleteMany_def Let_def
      split: option.splits if_splits dest!: postProduct_createMany_posts)

lemma create_post_tx_posts:
  assumes "create_post_tx w d slug newId now db = Inr (r, db')"
  shows "\<exists>new. posts db' = posts db @ [new] \<and> post_id new = newId
           \<and> newId \<notin> post_id ` set (posts db)"
  using assms
  by (auto simp: create_post_tx_def post_create_def Let_def list_ex_iff
      split: sum.splits option.splits if_splits dest!: postProduct_createMany_posts)

lemma POST_posts_posts:
  "posts (snd (POST_posts db s w b rnd newId now)) = posts db \<or>
   (\<exists>new. posts (snd (POST_posts db s w b rnd newId now)) = posts db @ [new]
          \<and> post_id new \<notin> post_id ` set (posts db))"
  by (auto simp: POST_posts_def transaction_def Let_def
      split: option.splits sum.splits prod.splits dest!: create_post_tx_posts)

lemma apply_update_id [simp]: "post_id (apply_update d p) = post_id p"
  by (simp add: apply_update_def)

lemma update_post_tx_posts:
  assumes "update_post_tx w pid d db = Inr (r, db')"
  shows "posts db' = map (\<lambda>q. if post_id q = pid then apply_update d q else q) (posts db)"
  using assms
  by (auto simp: update_post_tx_def split: sum.splits
      dest!: post_update_Inr replace_products_posts)

lemma PUT_post_posts:
  "snd (PUT_post db s w pid b rnd now) = db \<or>
   (findPost db w pid \<noteq> None \<and>
    (\<exists>d. posts (snd (PUT_post db s w pid b rnd now))
           = map (\<lambda>q. if post_id q = pid then apply_update d q else q) (posts db)))"
  by (auto simp: PUT_post_def transaction_def Let_def verifyPostAccess_def
      split: option.splits sum.splits prod.splits dest!: update_post_tx_posts)

lemma DELETE_post_cases:
  "(snd (DELETE_post db s w pid now) = db \<and> \<not> success (fst (DELETE_post db s w pid now))) \<or>
   (findPost db w pid \<noteq> None \<and> success (fst (DELETE_post db s w pid now)) \<and>
    snd (DELETE_post db s w pid now)
      = db\<lparr>posts := map (\<lambda>q. if post_id q = pid then q\<lparr>post_deletedAt := Some now\<rparr> else q)
                        (posts db)\<rparr>)"
  by (auto simp: DELETE_post_def verifyPostAccess_def
      split: option.splits sum.splits dest!: post_update_Inr)

lemma DELETE_category_posts [simp]: "posts (snd (DELETE_category db s w c)) = posts db"
  by (auto simp: DELETE_category_def category_delete_def split: option.splits sum.splits if_splits)

lemma POST_workspaces_posts [simp]: "posts (snd (POST_workspaces db s b rnd i n)) = posts db"
  by (auto simp: POST_workspaces_def workspace_create_def Let_def
      split: option.splits sum.splits if_splits)

lemma map_update_ids:
  assumes "\<And>q. post_id (f q) = post_id q"
  shows "map post_id (map (\<lambda>q. if post_id q = pid then f q else q) ps) = map post_id ps"
  using assms by (induction ps) auto

lemma map_keeps_row:
  assumes "distinct (map post_id ps)" and "p \<in> set ps"
    and "\<And>q. post_id (f q) = post_id q" and "post_id p \<noteq> pid"
  shows "distinct (map post_id (map (\<lambda>q. if post_id q = pid then f q else q) ps))
         \<and> p \<in> set (map (\<lambda>q. if post_id q = pid then f q else q) ps)"
proof -
  from assms(2,4) have 1: "p \<in> set (map (\<lambda>q. if post_id q = pid then f q else q) ps)"
    by (induction ps) auto
  have 2: "distinct (map post_id (map (\<lambda>q. if post_id q = pid then f q else q) ps))"
    unfolding map_update_ids [of f pid ps, OF assms(3)] by (rule assms(1))
  from 2 1 show ?thesis ..
qed

lemma serve_keeps_deleted:
  assumes "post_ids_unique db" and "p \<in> set (posts db)" and "post_deletedAt p \<noteq> None"
  shows "post_ids_unique (serve db req) \<and> p \<in> set (posts (serve db req))"
proof (cases req)
  case (Req_POST_posts s w b rnd newId now)
  with POST_posts_posts [of db s w b rnd newId now] assms show ?thesis
    by (auto simp: post_ids_unique_def)
next
  case (Req_PUT_post s w pid b rnd now)
  from PUT_post_posts [of db s w pid b rnd now] show ?thesis
  proof
    assume "snd (PUT_post db s w pid b rnd now) = db"
    with Req_PUT_post assms show ?thesis by simp
  next
    assume a: "findPost db w pid \<noteq> None \<and>
      (\<exists>d. posts (snd (PUT_post db s w pid b rnd now))
           = map (\<lambda>q. if post_id q = pid then apply_update d q else q) (posts db))"
    with findPost_deleted [OF assms, of w] have ne: "post_id p \<noteq> pid" by auto
    from a obtain d where d: "posts (snd (PUT_post db s w pid b rnd now))
           = map (\<lambda>q. if post_id q = pid then apply_update d q else q) (posts db)" by auto
    from assms(1) have "distinct (map post_id (posts db))" by (simp add: post_ids_unique_def)
    from map_keeps_row [OF this assms(2) _ ne, of "apply_update d"] d Req_PUT_post
    show ?thesis unfolding post_ids_unique_def by (simp del: map_map)
  qed
next
  case (Req_DELETE_post s w pid now)
  from DELETE_post_cases [of db s w pid now] show ?thesis
  proof
    assume "snd (DELETE_post db s w pid now) = db \<and> \<not> success (fst (DELETE_post db s w pid now))"
    with Req_DELETE_post assms show ?thesis by simp
  next
    assume a: "findPost db w pid \<noteq> None \<and> success (fst (DELETE_post db s w pid now)) \<and>
      snd (DELETE_post db s w pid now)
        = db\<lparr>posts := map (\<lambda>q. if post_id q = pid then q\<lparr>post_deletedAt := Some now\<rparr> else q)
                        (posts db)\<rparr>"
    with findPost_deleted [OF assms, of w] have ne: "post_id p \<noteq> pid" by auto
    from assms(1) have "distinct (map post_id (posts db))" by (simp add: post_ids_unique_def)
    from map_keeps_row [OF this assms(2) _ ne, of "\<lambda>q. q\<lparr>post_deletedAt := Some now\<rparr>"] a
      Req_DELETE_post
    show ?thesis unfolding post_ids_unique_def by (simp del: map_map)
  qed
next
  case (Req_DELETE_category s w c)
  with assms show ?thesis by (simp add: post_ids_unique_def)
next
  case (Req_POST_workspaces s b rnd i n)
  with assms show ?thesis by (simp add: post_ids_unique_def)
qed

lemma serve_all_keeps_deleted:
  assumes "post_ids_unique db" and "p \<in> set (posts db)" and "post_deletedAt p \<noteq> None"
  shows "post_ids_unique (serve_all db reqs) \<and> p \<in> set (posts (serve_all db reqs))"
  using assms
proof (induction reqs arbitrary: db)
  case Nil
  then show ?case by (simp add: serve_all_def)
next
  case (Cons r reqs)
  from serve_keeps_deleted [OF Cons.prems, of r] Cons.prems(3)
  have "post_ids_unique (serve_all (serve db r) reqs) \<and> p \<in> set (posts (serve_all (serve db r) reqs))"
    by (intro Cons.IH) auto
  then show ?case by (simp add: serve_all_def)
qed

lemma DELETE_post_success:
  assumes "post_ids_unique db" and "success (fst (DELETE_post db s w pid now))"
  shows "\<exists>p. p \<in> set (posts (snd (DELETE_post db s w pid now))) \<and> post_id p = pid
           \<and> post_workspaceId p = w \<and> post_deletedAt p = Some now
           \<and> post_ids_unique (snd (DELETE_post db s w pid now))"
proof -
  let ?f = "\<lambda>q. if post_id q = pid then q\<lparr>post_deletedAt := Some now\<rparr> else q"
  from DELETE_post_cases [of db s w pid now] assms(2)
  have f: "findPost db w pid \<noteq> None"
    and e: "snd (DELETE_post db s w pid now) = db\<lparr>posts := map ?f (posts db)\<rparr>" by auto
  from f obtain q where q: "findPost db w pid = Some q" by auto
  from findPost_Some [OF q]
  have qq: "q \<in> set (posts db)" "post_id q = pid" "post_workspaceId q = w" by simp_all
  let ?p = "q\<lparr>post_deletedAt := Some now\<rparr>"
  from qq(2) have fq: "?f q = ?p" by simp
  have "g q \<in> set (map g (posts db))" for g :: "Post \<Rightarrow> Post"
    using qq(1) by simp
  from this [of ?f] have "?p \<in> set (map ?f (posts db))" by (simp only: fq)
  with e have 1: "?p \<in> set (posts (snd (DELETE_post db s w pid now)))" by simp
  have "map post_id (map ?f (posts db)) = map post_id (posts db)"
    by (rule map_update_ids) simp
  with assms(1) e have 2: "post_ids_unique (snd (DELETE_post db s w pid now))"
    unfolding post_ids_unique_def by (simp del: map_map)
  from 1 2 qq show ?thesis by (intro exI [of _ ?p]) simp
qed

lemma same_id_same_row:
  assumes "distinct (map post_id ps)" and "p \<in> set ps" and "q \<in> set ps"
    and "post_id q = post_id p"
  shows "q = p"
  using assms by (auto simp: distinct_map dest: inj_onD)

lemma deleted_row_after:
  assumes "post_ids_unique db"
    and "success (fst (DELETE_post db session workspaceId postId now))"
    and "db2 = serve_all (snd (DELETE_post db session workspaceId postId now)) reqs"
  shows "\<exists>p. p \<in> set (posts db2) \<and> post_id p = postId \<and> post_workspaceId p = workspaceId
           \<and> post_deletedAt p = Some now \<and> post_ids_unique db2"
proof -
  from DELETE_post_success [OF assms(1,2)] obtain p where
    p: "p \<in> set (posts (snd (DELETE_post db session workspaceId postId now)))"
       "post_id p = postId" "post_workspaceId p = workspaceId" "post_deletedAt p = Some now"
       "post_ids_unique (snd (DELETE_post db session workspaceId postId now))" by blast
  from serve_all_keeps_deleted [OF p(5) p(1), of reqs] p(4) assms(3)
  have "post_ids_unique db2 \<and> p \<in> set (posts db2)" by simp
  with p show ?thesis by blast
qed

lemma DELETE_post_status:
  "success (fst (DELETE_post db s w pid now)) \<or>
   status (fst (DELETE_post db s w pid now)) \<in> {401, 403, 500}"
  by (auto simp: DELETE_post_def catch_access_def split: option.splits sum.splits)

text \<open>
  C10. Soft deletion is not idempotent at the interface. After a successful delete of
  a post at time \<open>now\<close>, and after any further requests, a delete request for the
  same post id (by anyone, through any workspace id) does not succeed: its status is
  401, 403 or 500, for a member of the addressed workspace it is the 500 answer, and
  it leaves the store as it is; an update request for the post fails the same way.
  The post's row is still there and its delete timestamp is still \<open>now\<close>.
\<close>

theorem second_delete_fails:
  assumes "post_ids_unique db"
    and "success (fst (DELETE_post db session workspaceId postId now))"
    and "db2 = serve_all (snd (DELETE_post db session workspaceId postId now)) reqs"
  shows "\<not> success (fst (DELETE_post db2 session' workspaceId' postId now')) \<and>
         status (fst (DELETE_post db2 session' workspaceId' postId now')) \<in> {401, 403, 500} \<and>
         snd (DELETE_post db2 session' workspaceId' postId now') = db2 \<and>
         (\<forall>user m. session' = Some user \<longrightarrow> findMembership db2 workspaceId' (user_id user) = Some m
            \<longrightarrow> fst (DELETE_post db2 session' workspaceId' postId now')
                  = json_error ''Internal server error'' 500) \<and>
         \<not> success (fst (PUT_post db2 session' workspaceId' postId body rnd now')) \<and>
         snd (PUT_post db2 session' workspaceId' postId body rnd now') = db2 \<and>
         (\<exists>p. p \<in> set (posts db2) \<and> post_id p = postId \<and> post_deletedAt p = Some now) \<and>
         (\<forall>p \<in> set (posts db2). post_id p = postId \<longrightarrow> post_deletedAt p = Some now)"
proof -
  from deleted_row_after [OF assms] obtain p where
    p: "p \<in> set (posts db2)" "post_id p = postId" "post_deletedAt p = Some now"
       "post_ids_unique db2" by blast
  from p(3) have del: "post_deletedAt p \<noteq> None" by simp
  from findPost_deleted [OF p(4) p(1) del] p(2)
  have nf: "findPost db2 w postId = None" for w by simp
  have d: "\<not> success (fst (DELETE_post db2 session' workspaceId' postId now'))"
          "snd (DELETE_post db2 session' workspaceId' postId now') = db2"
    using nf [of workspaceId']
    by (auto simp: DELETE_post_def verifyPostAccess_def split: option.splits sum.splits)
  from d(1) DELETE_post_status [of db2 session' workspaceId' postId now']
  have st: "status (fst (DELETE_post db2 session' workspaceId' postId now')) \<in> {401, 403, 500}"
    by blast
  have m: "fst (DELETE_post db2 session' workspaceId' postId now')
             = json_error ''Internal server error'' 500"
    if "session' = Some user" "findMembership db2 workspaceId' (user_id user) = Some m" for user m
    using that nf [of workspaceId']
    by (simp add: DELETE_post_def verifyPostAccess_def catch_access_def)
  have u: "\<not> success (fst (PUT_post db2 session' workspaceId' postId body rnd now'))"
          "snd (PUT_post db2 session' workspaceId' postId body rnd now') = db2"
    using nf [of workspaceId']
    by (auto simp: PUT_post_def verifyPostAccess_def split: option.splits sum.splits)
  have a: "post_deletedAt q = Some now" if "q \<in> set (posts db2)" "post_id q = postId" for q
  proof -
    from p(4) have "distinct (map post_id (posts db2))" by (simp add: post_ids_unique_def)
    from same_id_same_row [OF this p(1) that(1)] that(2) p(2) have "q = p" by simp
    with p(3) show ?thesis by simp
  qed
  from d st m u a p show ?thesis by blast
qed

theorem second_delete_fails_witness:
  "post_ids_unique store0 \<and>
   success (fst (DELETE_post store0 (Some alice) ''wA'' ''p1'' 9)) \<and>
   fst (DELETE_post (snd (DELETE_post store0 (Some alice) ''wA'' ''p1'' 9)) (Some alice) ''wA'' ''p1'' 12)
     = json_error ''Internal server error'' 500 \<and>
   snd (DELETE_post (snd (DELETE_post store0 (Some alice) ''wA'' ''p1'' 9)) (Some alice) ''wA'' ''p1'' 12)
     = snd (DELETE_post store0 (Some alice) ''wA'' ''p1'' 9) \<and>
   map (\<lambda>p. (post_id p, post_deletedAt p)) (posts (snd (DELETE_post store0 (Some alice) ''wA'' ''p1'' 9)))
     = [(''p1'', Some 9), (''p2'', None)]"
proof -
  let ?db1 = "snd (DELETE_post store0 (Some alice) ''wA'' ''p1'' 9)"
  have u: "post_ids_unique store0" by code_simp
  have s: "success (fst (DELETE_post store0 (Some alice) ''wA'' ''p1'' 9))" by code_simp
  have e: "?db1 = serve_all ?db1 []" by (simp add: serve_all_def)
  have m: "findMembership ?db1 ''wA'' (user_id alice)
             = Some \<lparr>uw_userId = ''alice'', uw_workspaceId = ''wA'', uw_role = OWNER\<rparr>"
    by code_simp
  have d: "map (\<lambda>p. (post_id p, post_deletedAt p)) (posts ?db1) = [(''p1'', Some 9), (''p2'', None)]"
    by code_simp
  from second_delete_fails [OF u s e, of "Some alice" "''wA''" 12] m
  have "fst (DELETE_post ?db1 (Some alice) ''wA'' ''p1'' 12) = json_error ''Internal server error'' 500
        \<and> snd (DELETE_post ?db1 (Some alice) ''wA'' ''p1'' 12) = ?db1"
    by blast
  with u s d show ?thesis by blast
qed

text \<open>
  C9, as the post handlers do it. After a successful soft delete of a post in a store
  with unique post ids, and after any further requests to the handlers of
  \<open>serve\<close>, no answer of the post list contains the post, whoever asks, for whatever
  workspace and with whatever query parameters, and the single-post read returns no
  data for it; the row stays in the store with its delete timestamp. The post list
  has no parameter that includes deleted posts. The statement is about these two
  reads of posts only.
\<close>

theorem soft_deleted_post_not_listed:
  assumes "post_ids_unique db"
    and "success (fst (DELETE_post db session workspaceId postId now))"
    and "db2 = serve_all (snd (DELETE_post db session workspaceId postId now)) reqs"
  shows "postId \<notin> set (listed_post_ids (GET_posts db2 session' workspaceId' query)) \<and>
         data (GET_post db2 session' workspaceId' postId) = None \<and>
         (\<exists>p. p \<in> set (posts db2) \<and> post_id p = postId \<and> post_workspaceId p = workspaceId
               \<and> post_deletedAt p = Some now)"
proof -
  from deleted_row_after [OF assms] obtain p where
    p: "p \<in> set (posts db2)" "post_id p = postId" "post_workspaceId p = workspaceId"
       "post_deletedAt p = Some now" "post_ids_unique db2" by blast
  from p(5) have dist: "distinct (map post_id (posts db2))" by (simp add: post_ids_unique_def)
  have 1: "postId \<notin> set (listed_post_ids (GET_posts db2 session' workspaceId' query))"
  proof
    assume "postId \<in> set (listed_post_ids (GET_posts db2 session' workspaceId' query))"
    then obtain page where
      g1: "data (GET_posts db2 session' workspaceId' query) = Some page"
      and "postId \<in> set (map (\<lambda>pw. post_id (pwp_post pw)) (page_posts page))"
      by (cases "data (GET_posts db2 session' workspaceId' query)")
         (simp_all add: listed_post_ids_def)
    then obtain pw where g2: "pw \<in> set (page_posts page)" "post_id (pwp_post pw) = postId"
      by auto
    note g = g1 g2
    from GET_posts_data [OF g(1,2)]
    have q: "pwp_post pw \<in> set (posts db2)" "post_deletedAt (pwp_post pw) = None" by simp_all
    from same_id_same_row [OF dist p(1) q(1)] p(2) g(3) have "pwp_post pw = p" by simp
    with q(2) p(4) show False by simp
  qed
  have 2: "data (GET_post db2 session' workspaceId' postId) = None"
  proof (cases "data (GET_post db2 session' workspaceId' postId)")
    case None
    then show ?thesis .
  next
    case (Some r)
    obtain pw w where "r = (pw, w)" by (cases r)
    with Some GET_post_data [of db2 session' workspaceId' postId pw w]
    have q: "pwp_post pw \<in> set (posts db2)" "post_id (pwp_post pw) = postId"
            "post_deletedAt (pwp_post pw) = None" by simp_all
    from same_id_same_row [OF dist p(1) q(1)] p(2) q(2) have "pwp_post pw = p" by simp
    with q(3) p(4) show ?thesis by simp
  qed
  from 1 2 p show ?thesis by blast
qed

text \<open>
  The second half of the claim fails: after the soft delete of \<open>p1\<close>, a read that
  asks for deleted posts explicitly does not include it either.
\<close>

theorem soft_deleted_post_not_listed_counterexample:
  "success (fst (DELETE_post store0 (Some alice) ''wA'' ''p1'' 9)) \<and>
   listed_post_ids (GET_posts store0 (Some alice) ''wA'' []) = [''p1''] \<and>
   listed_post_ids (GET_posts (snd (DELETE_post store0 (Some alice) ''wA'' ''p1'' 9)) (Some alice) ''wA''
                      [(''includeDeleted'', ''true'')]) = [] \<and>
   listed_post_ids (GET_posts (snd (DELETE_post store0 (Some alice) ''wA'' ''p1'' 9)) (Some alice) ''wA''
                      [(''deleted'', ''true'')]) = []"
  by code_simp

theorem soft_deleted_post_not_listed_witness:
  "post_ids_unique store0 \<and>
   success (fst (DELETE_post store0 (Some alice) ''wA'' ''p1'' 9)) \<and>
   listed_post_ids (GET_posts store0 (Some alice) ''wA'' []) = [''p1''] \<and>
   ''p1'' \<notin> set (listed_post_ids
                   (GET_posts (snd (DELETE_post store0 (Some alice) ''wA'' ''p1'' 9)) (Some alice) ''wA'' [])) \<and>
   data (GET_post (snd (DELETE_post store0 (Some alice) ''wA'' ''p1'' 9)) (Some alice) ''wA'' ''p1'') = None"
proof -
  let ?db1 = "snd (DELETE_post store0 (Some alice) ''wA'' ''p1'' 9)"
  have u: "post_ids_unique store0" by code_simp
  have s: "success (fst (DELETE_post store0 (Some alice) ''wA'' ''p1'' 9))" by code_simp
  have e: "?db1 = serve_all ?db1 []" by (simp add: serve_all_def)
  have l: "listed_post_ids (GET_posts store0 (Some alice) ''wA'' []) = [''p1'']" by code_simp
  from soft_deleted_post_not_listed [OF u s e, of "Some alice" "''wA''" "[]"] u s l
  show ?thesis by blast
qed

text \<open>
  The read of a single product is not such a read: it joins the posts of the product
  with no filter on the delete timestamp, and the soft delete leaves the rows of the
  join table, so the product \<open>prA\<close> is still answered with the post \<open>p1\<close> after the
  soft delete of \<open>p1\<close>.
\<close>

lemma product_read_embeds_deleted_post:
  "map post_deletedAt (posts (snd (DELETE_post store0 (Some alice) ''wA'' ''p1'' 9))) = [Some 9, None] \<and>
   map_option (\<lambda>r. map post_id (pwposts_posts r))
     (data (GET_product (snd (DELETE_post store0 (Some alice) ''wA'' ''p1'' 9)) (Some alice) ''wA'' ''prA''))
   = Some [''p1'']"
  by code_simp

subsection \<open>Replacing the products of a post\<close>

lemma findProductsIn_short:
  assumes "product_ids_unique db" and "bad \<in> set ids"
    and "\<not> (\<exists>p \<in> set (products db). product_id p = bad \<and> product_workspaceId p = w)"
  shows "length (findProductsIn db ids w) < length ids"
proof -
  let ?F = "findProductsIn db ids w"
  from assms(1) have "distinct (map product_id ?F)"
    by (simp add: product_ids_unique_def findProductsIn_def distinct_map_filter)
  then have "length ?F = card (set (map product_id ?F))"
    by (metis distinct_card length_map)
  also have "set (map product_id ?F) \<subseteq> set ids - {bad}"
    using assms(3) by (auto simp: findProductsIn_def)
  then have "card (set (map product_id ?F)) \<le> card (set ids - {bad})"
    by (intro card_mono) auto
  also from assms(2) have "card (set ids - {bad}) < card (set ids)"
    by (intro psubset_card_mono) auto
  also have "card (set ids) \<le> length ids" by (rule card_length)
  finally show ?thesis .
qed

lemma post_update_products:
  "post_update db postId change = Inr db' \<Longrightarrow> products db' = products db"
  by (auto dest!: post_update_Inr)

lemma replace_products_rejects:
  assumes "product_ids_unique db" and "bad \<in> set ids"
    and "\<not> (\<exists>p \<in> set (products db). product_id p = bad \<and> product_workspaceId p = w)"
  shows "replace_products db w postId (Some ids) = Inl (Error ''Some products not found or access denied'')"
proof -
  let ?db1 = "postProduct_deleteMany db postId"
  have p: "products ?db1 = products db" by (simp add: postProduct_deleteMany_def)
  with assms(1) have u: "product_ids_unique ?db1" by (simp add: product_ids_unique_def)
  from findProductsIn_short [OF u assms(2)] assms(3) p
  have "length (findProductsIn ?db1 ids w) < length ids" by simp
  moreover from assms(2) have "length ids > 0" by auto
  ultimately show ?thesis by (simp add: replace_products_def Let_def)
qed

lemma update_post_tx_rejects:
  assumes "product_ids_unique db" and "up_productIds d = Some ids" and "bad \<in> set ids"
    and "\<not> (\<exists>p \<in> set (products db). product_id p = bad \<and> product_workspaceId p = w)"
  shows "\<exists>e. update_post_tx w postId d db = Inl e \<and> \<not> is_ZodError e
             \<and> \<not> str_includes (exn_message e) ''Access denied''"
proof (cases "post_update db postId (apply_update d)")
  case (Inl e)
  then have "\<not> is_ZodError e \<and> \<not> str_includes (exn_message e) ''Access denied''"
    by (auto simp: post_update_def split: option.splits if_splits)
  with Inl show ?thesis by (simp add: update_post_tx_def)
next
  case (Inr db1)
  then have "products db1 = products db" by (rule post_update_products)
  with assms(1,4) have "product_ids_unique db1"
    "\<not> (\<exists>p \<in> set (products db1). product_id p = bad \<and> product_workspaceId p = w)"
    by (simp_all add: product_ids_unique_def)
  from replace_products_rejects [OF this(1) assms(3) this(2)] Inr assms(2)
  show ?thesis by (simp add: update_post_tx_def)
qed

lemma verifyPostAccess_Inl:
  "verifyPostAccess db w pid uid = Inl e \<Longrightarrow> \<not> is_ZodError e"
  by (auto simp: verifyPostAccess_def split: option.splits)

text \<open>
  C4. An update request whose body supplies the product ids \<open>ids\<close>, one of which
  (\<open>bad\<close>) is not the id of a product of the post's workspace, is rejected as a
  whole: the request does not succeed (status 401, 403 or 500; the 500 answer for a
  caller who passes the access check), and the store after it is the store before it,
  so the post's associations, and the post itself, are exactly as they were, although
  the transaction had already updated the post and deleted the old associations when
  the count of matching products failed.
\<close>

theorem post_products_replace_atomic:
  assumes "product_ids_unique db"
    and "body = Parsed d" and "up_productIds d = Some ids"
    and "bad \<in> set ids"
    and "\<not> (\<exists>p \<in> set (products db). product_id p = bad \<and> product_workspaceId p = workspaceId)"
  shows "snd (PUT_post db session workspaceId postId body rnd now) = db \<and>
         \<not> success (fst (PUT_post db session workspaceId postId body rnd now)) \<and>
         status (fst (PUT_post db session workspaceId postId body rnd now)) \<in> {401, 403, 500} \<and>
         (\<forall>user m p. session = Some user \<longrightarrow>
            verifyPostAccess db workspaceId postId (user_id user) = Inr (m, p) \<longrightarrow>
            fst (PUT_post db session workspaceId postId body rnd now)
              = json_error ''Internal server error'' 500)"
proof -
  let ?d = "publish_status now (unique_slug db workspaceId postId rnd (reslug d))"
  have ids: "up_productIds ?d = Some ids"
    using assms(3)
    by (simp add: publish_status_def unique_slug_def reslug_def split: option.splits)
  from update_post_tx_rejects [OF assms(1) ids assms(4,5), of postId] obtain e where
    e: "update_post_tx workspaceId postId ?d db = Inl e" "\<not> is_ZodError e"
       "\<not> str_includes (exn_message e) ''Access denied''" by blast
  then have t: "transaction (update_post_tx workspaceId postId ?d) db = (Inl e, db)"
    by (simp add: transaction_def)
  have c: "catch_validation e = (json_error ''Internal server error'' 500 :: (PostWithProducts \<times> Workspace option) Response)"
    using e(2,3) by (simp add: catch_validation_def catch_access_def)
  show ?thesis
  proof (cases session)
    case None
    then show ?thesis by (simp add: PUT_post_def)
  next
    case (Some user)
    show ?thesis
    proof (cases "verifyPostAccess db workspaceId postId (user_id user)")
      case (Inl x)
      from verifyPostAccess_Inl [OF Inl] Inl Some show ?thesis
        by (simp add: PUT_post_def catch_validation_def catch_access_def)
    next
      case (Inr mp)
      with Some t c assms(2) show ?thesis
        by (simp add: PUT_post_def Let_def)
    qed
  qed
qed

theorem post_products_replace_atomic_witness:
  "product_ids_unique store0 \<and>
   ''prB'' \<in> set [''prA'', ''prB''] \<and>
   \<not> list_ex (\<lambda>p. product_id p = ''prB'' \<and> product_workspaceId p = ''wA'') (products store0) \<and>
   PUT_post store0 (Some alice) ''wA'' ''p1''
     (Parsed \<lparr>up_title = Some ''New'', up_content = None, up_excerpt = None,
              up_slug = None, up_videoUrl = None, up_videoType = None,
              up_thumbnail = None, up_isPublished = None, up_publishedAt = None,
              up_productIds = Some [''prA'', ''prB'']\<rparr>) ''0.4fzyo82mvyr'' 9
     = (json_error ''Internal server error'' 500, store0) \<and>
   postProducts store0 = [\<lparr>pp_postId = ''p1'', pp_productId = ''prA''\<rparr>]"
proof -
  let ?d = "\<lparr>up_title = Some ''New'', up_content = None, up_excerpt = None,
              up_slug = None, up_videoUrl = None, up_videoType = None,
              up_thumbnail = None, up_isPublished = None, up_publishedAt = None,
              up_productIds = Some [''prA'', ''prB'']\<rparr>"
  have u: "product_ids_unique store0" by code_simp
  have i: "''prB'' \<in> set [''prA'', ''prB'']" by simp
  have n: "\<not> list_ex (\<lambda>p. product_id p = ''prB'' \<and> product_workspaceId p = ''wA'') (products store0)"
    by code_simp
  then have n': "\<not> (\<exists>p \<in> set (products store0). product_id p = ''prB'' \<and> product_workspaceId p = ''wA'')"
    by (simp add: list_ex_iff)
  have a: "verifyPostAccess store0 ''wA'' ''p1'' (user_id alice)
             = Inr (\<lparr>uw_userId = ''alice'', uw_workspaceId = ''wA'', uw_role = OWNER\<rparr>, post_1)"
    by code_simp
  have pp: "postProducts store0 = [\<lparr>pp_postId = ''p1'', pp_productId = ''prA''\<rparr>]"
    by (simp add: store0_def)
  from post_products_replace_atomic [OF u refl _ i n', of ?d "Some alice" "''p1''" "''0.4fzyo82mvyr''" 9] a
  have "snd (PUT_post store0 (Some alice) ''wA'' ''p1'' (Parsed ?d) ''0.4fzyo82mvyr'' 9) = store0 \<and>
        fst (PUT_post store0 (Some alice) ''wA'' ''p1'' (Parsed ?d) ''0.4fzyo82mvyr'' 9)
          = json_error ''Internal server error'' 500"
    by simp
  then have "PUT_post store0 (Some alice) ''wA'' ''p1'' (Parsed ?d) ''0.4fzyo82mvyr'' 9
          = (json_error ''Internal server error'' 500, store0)"
    by (simp add: prod_eq_iff)
  with u i n pp show ?thesis by blast
qed

subsection \<open>Slug collisions on create\<close>

text \<open>
  C3 does not hold of the create handlers. First, the suffix is the first up to six
  base-36 digits of the draw and the suffixed slug is not looked up again: when the
  draw is one half, which renders as \<open>0.i\<close>, the second workspace named Odecor is
  stored under \<open>odecor-i\<close>, which does not match \<open>^odecor-[a-z0-9]{6}$\<close>. Second,
  the lookup of the post create skips soft-deleted posts while the unique index
  \<open>posts_workspaceId_slug_key\<close> does not: after the soft delete of \<open>p1\<close> a post
  create with the title of \<open>p1\<close> finds no post with the slug \<open>lamp-review\<close>, keeps
  the slug, and is rejected by the store; the handler answers 500 and nothing is
  stored.
\<close>

theorem colliding_slug_not_disambiguated:
  "map ws_slug (workspaces (snd (POST_workspaces store0 (Some alice)
     (Parsed \<lparr>cw_name = ''Odecor'', cw_description = None, cw_slug = None\<rparr>) ''0.i'' ''wC'' 20)))
     = [''odecor'', ''garden'', ''odecor-i''] \<and>
   \<not> matches_suffixed ''odecor'' ''odecor-i'' \<and>
   success (fst (DELETE_post store0 (Some alice) ''wA'' ''p1'' 9)) \<and>
   findPostBySlug (snd (DELETE_post store0 (Some alice) ''wA'' ''p1'' 9)) ''wA'' ''lamp-review'' = None \<and>
   fst (POST_posts (snd (DELETE_post store0 (Some alice) ''wA'' ''p1'' 9)) (Some alice) ''wA''
     (Parsed \<lparr>cp_title = ''Lamp review'', cp_content = None, cp_excerpt = None, cp_slug = None,
              cp_videoUrl = None, cp_videoType = None, cp_thumbnail = None, cp_isPublished = False,
              cp_publishedAt = None, cp_productIds = None\<rparr>) ''0.i'' ''p3'' 20)
     = json_error ''Internal server error'' 500 \<and>
   map post_id (posts (snd (POST_posts (snd (DELETE_post store0 (Some alice) ''wA'' ''p1'' 9)) (Some alice) ''wA''
     (Parsed \<lparr>cp_title = ''Lamp review'', cp_content = None, cp_excerpt = None, cp_slug = None,
              cp_videoUrl = None, cp_videoType = None, cp_thumbnail = None, cp_isPublished = False,
              cp_publishedAt = None, cp_productIds = None\<rparr>) ''0.i'' ''p3'' 20)))
     = [''p1'', ''p2'']"
  by code_simp

end
